theory Spec2Isabelle
  imports Main
begin

section \<open>Documents, exceptions and responses\<close>

text \<open>
  The route handlers of \<^verbatim>\<open>routes/api/posts.js\<close> and of the profile routes
  (\<^verbatim>\<open>src/unnamed/part_000\<close>) are embedded as functions on an explicit store.
  Identifiers are the strings the handlers compare (\<^verbatim>\<open>like.user.toString() === req.user.id\<close>,
  \<^verbatim>\<open>comment.id === req.params.comment_id\<close>).
\<close>

type_synonym oid = string

text \<open>
  The exceptions a handler can meet: the cast error of the document mapper (its
  \<^verbatim>\<open>kind\<close> is what the catch blocks test), the \<^verbatim>\<open>TypeError\<close> of a property read on
  \<^verbatim>\<open>null\<close>, the \<^verbatim>\<open>ReferenceError\<close> of an unbound identifier, a failure of the store, and
  the error thrown by the URL normaliser.
\<close>

datatype exn =
    CastError string
  | TypeError
  | ReferenceError string
  | StoreError
  | UrlError

fun kind :: "exn \<Rightarrow> string option" where
  "kind (CastError k) = Some k"
| "kind _ = None"

text \<open>
  Modelled from the spec: the schemas of \<^verbatim>\<open>models/User\<close>, \<^verbatim>\<open>models/Post\<close> and
  \<^verbatim>\<open>models/Profile\<close> are not among the source files; the records follow section 3 of
  the specification (timestamps are left out, no handler reads them).
\<close>

record user_doc =
  user_name :: string
  user_avatar :: string

record like =
  like_user :: oid

record comment =
  comment_id :: oid
  comment_user :: oid
  comment_text :: string
  comment_name :: string
  comment_avatar :: string

record post =
  post_user :: oid
  post_text :: string
  post_name :: string
  post_avatar :: string
  likes :: "like list"
  comments :: "comment list"

record experience =
  exp_id :: oid
  exp_title :: "string option"
  exp_company :: "string option"
  exp_location :: "string option"
  exp_from :: "string option"
  exp_to :: "string option"
  exp_current :: "bool option"
  exp_description :: "string option"

record education =
  edu_id :: oid
  edu_school :: "string option"
  edu_degree :: "string option"
  edu_fieldofstudy :: "string option"
  edu_from :: "string option"
  edu_to :: "string option"
  edu_current :: "bool option"
  edu_description :: "string option"

record social_links =
  youtube :: "string option"
  twitter :: "string option"
  instagram :: "string option"
  linkedin :: "string option"
  facebook :: "string option"

record profile =
  prof_user :: oid
  prof_company :: "string option"
  prof_location :: "string option"
  prof_website :: string
  prof_bio :: "string option"
  prof_skills :: "string list"
  prof_status :: "string option"
  prof_githubusername :: "string option"
  prof_social :: social_links
  prof_experience :: "experience list"
  prof_education :: "education list"

text \<open>One entry of the validator's error array (\<^verbatim>\<open>errors.array()\<close>).\<close>

record verror =
  err_msg :: string
  err_param :: string

text \<open>
  What a handler sends: \<^verbatim>\<open>res.send(text)\<close> or \<^verbatim>\<open>res.json(value)\<close>, one constructor for
  each shape of value the handlers serialise.
\<close>

datatype payload =
    Send string
  | Msg string
  | ErrorsBody "verror list"
  | EmptyObject
  | LikesBody "like list"
  | CommentsBody "comment list"
  | PostBody post
  | ProfileBody profile
  | PopulatedProfile profile "user_doc option"

text \<open>
  The outcome of an \<^verbatim>\<open>async\<close> handler: a response with its status code, or a rejected
  promise (an exception that left the handler, so that no response is sent).
\<close>

datatype outcome =
    Sent nat payload
  | Rejected exn

section \<open>The store\<close>

text \<open>
  The three collections, and \<open>budget\<close>: the number of store calls that still succeed
  before the store fails (\<open>None\<close>: it never fails). Profiles are keyed by their owner,
  since every lookup is by \<^verbatim>\<open>{ user: id }\<close>.
\<close>

record store =
  users :: "oid \<rightharpoonup> user_doc"
  profiles :: "oid \<rightharpoonup> profile"
  posts :: "oid \<rightharpoonup> post"
  budget :: "nat option"

type_synonym 'a act = "store \<Rightarrow> (exn + 'a) \<times> store"

definition respond :: "'a \<Rightarrow> 'a act" where
  "respond x = (\<lambda>s. (Inr x, s))"

definition throw :: "exn \<Rightarrow> 'a act" where
  "throw e = (\<lambda>s. (Inl e, s))"

definition await :: "'a act \<Rightarrow> ('a \<Rightarrow> 'b act) \<Rightarrow> 'b act" where
  "await m f = (\<lambda>s. case m s of (Inl e, s') \<Rightarrow> (Inl e, s') | (Inr x, s') \<Rightarrow> f x s')"

definition db_call :: "unit act" where
  "db_call = (\<lambda>s. case budget s of
       None \<Rightarrow> (Inr (), s)
     | Some 0 \<Rightarrow> (Inl StoreError, s)
     | Some (Suc n) \<Rightarrow> (Inr (), s\<lparr>budget := Some n\<rparr>))"

text \<open>A property read on the result of a lookup: \<^verbatim>\<open>null.likes\<close> throws.\<close>

definition deref :: "'a option \<Rightarrow> 'a act" where
  "deref v = (case v of None \<Rightarrow> throw TypeError | Some x \<Rightarrow> respond x)"

text \<open>
  The document mapper casts an identifier before it queries: a string that is not
  24 hexadecimal digits raises a cast error of kind \<^verbatim>\<open>ObjectId\<close>.
\<close>

definition is_hex :: "char \<Rightarrow> bool" where
  "is_hex c = (c \<in> set ''0123456789abcdefABCDEF'')"

definition valid_oid :: "string \<Rightarrow> bool" where
  "valid_oid i = (length i = 24 \<and> list_all is_hex i)"

definition Post_findById :: "oid \<Rightarrow> post option act" where
  "Post_findById pid =
     (if valid_oid pid then await db_call (\<lambda>_ s. (Inr (posts s pid), s))
      else throw (CastError ''ObjectId''))"

definition post_save :: "oid \<Rightarrow> post \<Rightarrow> unit act" where
  "post_save pid p = await db_call (\<lambda>_ s. (Inr (), s\<lparr>posts := (posts s)(pid \<mapsto> p)\<rparr>))"

definition post_remove :: "oid \<Rightarrow> unit act" where
  "post_remove pid = await db_call (\<lambda>_ s. (Inr (), s\<lparr>posts := (posts s)(pid := None)\<rparr>))"

definition User_findById :: "oid \<Rightarrow> user_doc option act" where
  "User_findById uid =
     (if valid_oid uid then await db_call (\<lambda>_ s. (Inr (users s uid), s))
      else throw (CastError ''ObjectId''))"

text \<open>
  \<^verbatim>\<open>new Post({...}).save()\<close>: the store gives the new document its identifier, here
  the argument \<open>fresh\<close>.
\<close>

definition post_insert :: "oid \<Rightarrow> post \<Rightarrow> unit act" where
  "post_insert fresh p = await db_call (\<lambda>_ s. (Inr (), s\<lparr>posts := (posts s)(fresh \<mapsto> p)\<rparr>))"

definition Profile_findOne :: "oid \<Rightarrow> profile option act" where
  "Profile_findOne uid =
     (if valid_oid uid then await db_call (\<lambda>_ s. (Inr (profiles s uid), s))
      else throw (CastError ''ObjectId''))"

text \<open>
  \<^verbatim>\<open>Profile.findOne({ user }).populate('user', ['name', 'avatar'])\<close>: a profile that is
  found is joined with its owner's account by a second query.
\<close>

definition Profile_findOne_populate :: "oid \<Rightarrow> (profile \<times> user_doc option) option act" where
  "Profile_findOne_populate uid =
     await (Profile_findOne uid) (\<lambda>found.
       case found of
         None \<Rightarrow> respond None
       | Some p \<Rightarrow> await db_call (\<lambda>_ s. (Inr (Some (p, users s (prof_user p))), s)))"

definition profile_save :: "oid \<Rightarrow> profile \<Rightarrow> unit act" where
  "profile_save uid p =
     await db_call (\<lambda>_ s. (Inr (), s\<lparr>profiles := (profiles s)(uid \<mapsto> p)\<rparr>))"

text \<open>
  Modelled from the spec: the upsert of the profile model, called as
  \<^verbatim>\<open>Profile.findOneAndUpdate({ user }, { $set: profileFields }, { new: true, upsert: true })\<close>.
  The document is created if absent and otherwise has the listed fields replaced; the
  embedded experience and education lists are not among the listed fields, so an
  existing document keeps them. The updated document is returned.
\<close>

definition Profile_findOneAndUpdate :: "oid \<Rightarrow> profile \<Rightarrow> profile act" where
  "Profile_findOneAndUpdate uid profileFields =
     (if valid_oid uid then
        await db_call (\<lambda>_ s.
          let doc = (case profiles s uid of
                       None \<Rightarrow> profileFields
                     | Some old \<Rightarrow> profileFields\<lparr>prof_experience := prof_experience old,
                                          prof_education := prof_education old\<rparr>)
          in (Inr doc, s\<lparr>profiles := (profiles s)(uid \<mapsto> doc)\<rparr>))
      else throw (CastError ''ObjectId''))"

text \<open>
  Whether the store answers the next \<open>n\<close> calls, and the store after \<open>n\<close> calls that
  changed no document.
\<close>

definition available :: "nat \<Rightarrow> store \<Rightarrow> bool" where
  "available n s = (case budget s of None \<Rightarrow> True | Some k \<Rightarrow> n \<le> k)"

definition spend :: "nat \<Rightarrow> store \<Rightarrow> store" where
  "spend n s = s\<lparr>budget := map_option (\<lambda>k. k - n) (budget s)\<rparr>"

section \<open>Array operations of the host language\<close>

text \<open>\<^verbatim>\<open>Array.prototype.indexOf\<close>: the first index of the value, or \<open>-1\<close>.\<close>

fun indexOf :: "'a list \<Rightarrow> 'a \<Rightarrow> int" where
  "indexOf [] x = - 1"
| "indexOf (y # ys) x =
     (if y = x then 0 else (let i = indexOf ys x in if i < 0 then - 1 else i + 1))"

text \<open>
  \<^verbatim>\<open>Array.prototype.splice(start, deleteCount)\<close>: a negative \<open>start\<close> counts from the
  end of the array (and is clamped at \<open>0\<close>), a \<open>start\<close> past the end is the length.
\<close>

definition splice_js :: "int \<Rightarrow> nat \<Rightarrow> 'a list \<Rightarrow> 'a list" where
  "splice_js start n xs =
     (let len = int (length xs);
          k = nat (if start < 0 then max (len + start) 0 else min start len)
      in take k xs @ drop (k + n) xs)"

text \<open>
  \<^verbatim>\<open>String.prototype.split(',')\<close>: the segments between the separators; a string
  without separator is one segment, the empty string too.
\<close>

fun split_js :: "char \<Rightarrow> string \<Rightarrow> string list" where
  "split_js d [] = [[]]"
| "split_js d (c # cs) =
     (if c = d then [] # split_js d cs
      else (c # hd (split_js d cs)) # tl (split_js d cs))"

text \<open>
  \<^verbatim>\<open>String.prototype.trim()\<close>: white space and line terminators are removed at both
  ends. A string is the UTF-8 encoding of its text, so each of these characters is a
  sequence of one to three bytes: U+0009 to U+000D, U+0020, U+00A0, U+1680, U+2000 to
  U+200A, U+2028, U+2029, U+202F, U+205F, U+3000 and U+FEFF.
\<close>

definition white_space :: "string list" where
  "white_space =
     [[CHR 0x09], [CHR 0x0A], [CHR 0x0B], [CHR 0x0C], [CHR 0x0D], [CHR 0x20],
      [CHR 0xC2, CHR 0xA0],
      [CHR 0xE1, CHR 0x9A, CHR 0x80],
      [CHR 0xE2, CHR 0x80, CHR 0x80], [CHR 0xE2, CHR 0x80, CHR 0x81],
      [CHR 0xE2, CHR 0x80, CHR 0x82], [CHR 0xE2, CHR 0x80, CHR 0x83],
      [CHR 0xE2, CHR 0x80, CHR 0x84], [CHR 0xE2, CHR 0x80, CHR 0x85],
      [CHR 0xE2, CHR 0x80, CHR 0x86], [CHR 0xE2, CHR 0x80, CHR 0x87],
      [CHR 0xE2, CHR 0x80, CHR 0x88], [CHR 0xE2, CHR 0x80, CHR 0x89],
      [CHR 0xE2, CHR 0x80, CHR 0x8A],
      [CHR 0xE2, CHR 0x80, CHR 0xA8], [CHR 0xE2, CHR 0x80, CHR 0xA9],
      [CHR 0xE2, CHR 0x80, CHR 0xAF],
      [CHR 0xE2, CHR 0x81, CHR 0x9F],
      [CHR 0xE3, CHR 0x80, CHR 0x80],
      [CHR 0xEF, CHR 0xBB, CHR 0xBF]]"

text \<open>Removing, as long as there is one, a sequence of \<open>ws\<close> at the front of a string.\<close>

function strip_front :: "string list \<Rightarrow> string \<Rightarrow> string" where
  "strip_front ws str =
     (case find (\<lambda>w. w \<noteq> [] \<and> take (length w) str = w) ws of
        None \<Rightarrow> str
      | Some w \<Rightarrow> strip_front ws (drop (length w) str))"
  by pat_completeness auto
termination
proof (relation "measure (\<lambda>(ws, str). length str)")
  show "wf (measure (\<lambda>(ws, str). length str))" by simp
next
  fix ws :: "string list" and str w :: string
  assume "find (\<lambda>w. w \<noteq> [] \<and> take (length w) str = w) ws = Some w"
  then have "w \<noteq> []" and "take (length w) str = w" by (auto simp: find_Some_iff)
  then have "str \<noteq> []" by auto
  with \<open>w \<noteq> []\<close> show "((ws, drop (length w) str), (ws, str)) \<in> measure (\<lambda>(ws, str). length str)"
    by simp
qed

declare strip_front.simps [simp del]

definition trimStart :: "string \<Rightarrow> string" where
  "trimStart str = strip_front white_space str"

definition trimEnd :: "string \<Rightarrow> string" where
  "trimEnd str = rev (strip_front (map rev white_space) (rev str))"

definition trim :: "string \<Rightarrow> string" where
  "trim str = trimEnd (trimStart str)"

section \<open>Request validation\<close>

text \<open>
  The validation library is not part of the repository. A chain
  \<^verbatim>\<open>check(field, msg).not().isEmpty()\<close> reports \<open>msg\<close> for \<open>field\<close> when the field's
  value, as a string, has length \<open>0\<close>; an absent field counts as the empty string, an
  array counts as its first element, and an empty array as the empty string.
  \<^verbatim>\<open>errors.array()\<close> lists the reports in the order of the checks.
\<close>

definition isEmpty :: "string \<Rightarrow> bool" where
  "isEmpty str = (length str = 0)"

definition to_string :: "string option \<Rightarrow> string" where
  "to_string v = (case v of None \<Rightarrow> [] | Some str \<Rightarrow> str)"

definition check_not_empty :: "string \<Rightarrow> string \<Rightarrow> string option \<Rightarrow> verror list" where
  "check_not_empty field msg v =
     (if isEmpty (to_string v) then [\<lparr>err_msg = msg, err_param = field\<rparr>] else [])"

text \<open>The \<^verbatim>\<open>skills\<close> field of a profile arrives as one string or as an array.\<close>

datatype skills_in = SkillsString string | SkillsArray "string list"

definition check_skills :: "string \<Rightarrow> string \<Rightarrow> skills_in option \<Rightarrow> verror list" where
  "check_skills field msg v =
     (case v of
        None \<Rightarrow> check_not_empty field msg None
      | Some (SkillsString str) \<Rightarrow> check_not_empty field msg (Some str)
      | Some (SkillsArray []) \<Rightarrow> check_not_empty field msg None
      | Some (SkillsArray (x # xs)) \<Rightarrow> check_not_empty field msg (Some x))"

text \<open>
  The value a handler puts under the key \<^verbatim>\<open>errors\<close>: the array \<^verbatim>\<open>errors.array()\<close>, or
  the method \<^verbatim>\<open>errors.array\<close> itself. \<^verbatim>\<open>res.json\<close> serialises with
  \<^verbatim>\<open>JSON.stringify\<close>, which leaves out a property whose value is a function.
\<close>

datatype errors_prop = ArrayValue "verror list" | MethodRef

definition json_errors :: "errors_prop \<Rightarrow> payload" where
  "json_errors v = (case v of ArrayValue es \<Rightarrow> ErrorsBody es | MethodRef \<Rightarrow> EmptyObject)"

section \<open>Catch blocks\<close>

text \<open>
  A catch clause binds the exception to one name; the block may read another. Reading
  an identifier that nothing binds throws a \<^verbatim>\<open>ReferenceError\<close>, which leaves the
  handler. Every catch block of the two route files reads \<^verbatim>\<open>err\<close>.
\<close>

definition read_err :: "string \<Rightarrow> exn \<Rightarrow> exn + exn" where
  "read_err bound e = (if bound = ''err'' then Inr e else Inl (ReferenceError ''err''))"

definition catch_block :: "string \<Rightarrow> (exn \<Rightarrow> outcome) \<Rightarrow> exn \<Rightarrow> outcome" where
  "catch_block bound block e =
     (case read_err bound e of Inl r \<Rightarrow> Rejected r | Inr err \<Rightarrow> block err)"

text \<open>\<^verbatim>\<open>console.log(err.message); res.status(500).send('Server error')\<close>\<close>

definition server_error :: "exn \<Rightarrow> outcome" where
  "server_error err = Sent 500 (Send ''Server error'')"

text \<open>
  \<^verbatim>\<open>if (err.kind === 'ObjectId') return res.status(404).json({ msg: 'Post not found' });
  res.status(500).send('Server error')\<close>
\<close>

definition post_not_found_or_500 :: "exn \<Rightarrow> outcome" where
  "post_not_found_or_500 err =
     (if kind err = Some ''ObjectId'' then Sent 404 (Msg ''Post not found'')
      else Sent 500 (Send ''Server error''))"

text \<open>
  \<^verbatim>\<open>if (err.kind === 'ObjectId') return res.status(400).json({ msg: 'Profile not found' });
  res.status(500).send('Server error')\<close>
\<close>

definition profile_not_found_or_500 :: "exn \<Rightarrow> outcome" where
  "profile_not_found_or_500 err =
     (if kind err = Some ''ObjectId'' then Sent 400 (Msg ''Profile not found'')
      else Sent 500 (Send ''Server error''))"

definition handle :: "outcome act \<Rightarrow> (exn \<Rightarrow> outcome) \<Rightarrow> store \<Rightarrow> outcome \<times> store" where
  "handle body catch s =
     (case body s of (Inl e, s') \<Rightarrow> (catch e, s') | (Inr out, s') \<Rightarrow> (out, s'))"

section \<open>Handlers of the post routes\<close>

text \<open>
  \<^verbatim>\<open>POST api/posts\<close>, with \<^verbatim>\<open>catch (err)\<close>. The handler sets the text, the author
  and the snapshot of the author's name and avatar; a new post has no likes and no
  comments yet.
\<close>

definition create_post_try :: "oid \<Rightarrow> string option \<Rightarrow> oid \<Rightarrow> outcome act" where
  "create_post_try caller text fresh =
     await (User_findById caller) (\<lambda>found.
     await (deref found) (\<lambda>user.
       let newPost = \<lparr>post_user = caller, post_text = to_string text,
                        post_name = user_name user, post_avatar = user_avatar user,
                        likes = [], comments = []\<rparr>
       in await (post_insert fresh newPost) (\<lambda>_.
          respond (Sent 200 (PostBody newPost)))))"

definition create_post :: "oid \<Rightarrow> string option \<Rightarrow> oid \<Rightarrow> store \<Rightarrow> outcome \<times> store" where
  "create_post caller text fresh s =
     (let errors = check_not_empty ''text'' ''Text is required'' text
      in if errors \<noteq> [] then (Sent 400 (json_errors (ArrayValue errors)), s)
         else handle (create_post_try caller text fresh) (catch_block ''err'' server_error) s)"

text \<open>\<^verbatim>\<open>DELETE api/posts/:id\<close>, with \<^verbatim>\<open>catch (err)\<close>.\<close>

definition delete_post_try :: "oid \<Rightarrow> oid \<Rightarrow> outcome act" where
  "delete_post_try caller pid =
     await (Post_findById pid) (\<lambda>found.
       case found of
         None \<Rightarrow> respond (Sent 404 (Msg ''Post not found''))
       | Some p \<Rightarrow>
           if post_user p \<noteq> caller
           then respond (Sent 401 (Msg ''User is not authorized''))
           else await (post_remove pid) (\<lambda>_.
                  respond (Sent 200 (Msg ''Post removed''))))"

definition delete_post :: "oid \<Rightarrow> oid \<Rightarrow> store \<Rightarrow> outcome \<times> store" where
  "delete_post caller pid =
     handle (delete_post_try caller pid) (catch_block ''err'' post_not_found_or_500)"

text \<open>\<^verbatim>\<open>PUT api/posts/like/:id\<close>, with \<^verbatim>\<open>catch (error)\<close>.\<close>

definition like_try :: "oid \<Rightarrow> oid \<Rightarrow> outcome act" where
  "like_try caller pid =
     await (Post_findById pid) (\<lambda>found.
     await (deref found) (\<lambda>p.
       if length (filter (\<lambda>l. like_user l = caller) (likes p)) > 0
       then respond (Sent 400 (Msg ''Post already liked''))
       else (let p' = p\<lparr>likes := \<lparr>like_user = caller\<rparr> # likes p\<rparr>
             in await (post_save pid p') (\<lambda>_.
                respond (Sent 200 (LikesBody (likes p')))))))"

definition like_post :: "oid \<Rightarrow> oid \<Rightarrow> store \<Rightarrow> outcome \<times> store" where
  "like_post caller pid =
     handle (like_try caller pid) (catch_block ''error'' post_not_found_or_500)"

text \<open>\<^verbatim>\<open>PUT api/posts/unlike/:id\<close>, with \<^verbatim>\<open>catch (error)\<close>.\<close>

definition unlike_try :: "oid \<Rightarrow> oid \<Rightarrow> outcome act" where
  "unlike_try caller pid =
     await (Post_findById pid) (\<lambda>found.
     await (deref found) (\<lambda>p.
       if length (filter (\<lambda>l. like_user l = caller) (likes p)) = 0
       then respond (Sent 400 (Msg ''Post has not yet been liked''))
       else (let removeIndex = indexOf (map like_user (likes p)) caller;
                 p' = p\<lparr>likes := splice_js removeIndex 1 (likes p)\<rparr>
             in await (post_save pid p') (\<lambda>_.
                respond (Sent 200 (LikesBody (likes p')))))))"

definition unlike_post :: "oid \<Rightarrow> oid \<Rightarrow> store \<Rightarrow> outcome \<times> store" where
  "unlike_post caller pid =
     handle (unlike_try caller pid) (catch_block ''error'' post_not_found_or_500)"

text \<open>
  \<^verbatim>\<open>POST api/posts/comment/:id\<close>, with \<^verbatim>\<open>catch (err)\<close>. The new comment's identifier
  is given by the store (\<open>fresh\<close>).
\<close>

definition add_comment_try :: "oid \<Rightarrow> oid \<Rightarrow> string option \<Rightarrow> oid \<Rightarrow> outcome act" where
  "add_comment_try caller pid text fresh =
     await (User_findById caller) (\<lambda>found_user.
     await (Post_findById pid) (\<lambda>found.
     await (deref found_user) (\<lambda>user.
       let newComment = \<lparr>comment_id = fresh, comment_user = caller,
                           comment_text = to_string text,
                           comment_name = user_name user, comment_avatar = user_avatar user\<rparr>
       in await (deref found) (\<lambda>p.
            let p' = p\<lparr>comments := newComment # comments p\<rparr>
            in await (post_save pid p') (\<lambda>_.
               respond (Sent 200 (CommentsBody (comments p'))))))))"

definition add_comment ::
  "oid \<Rightarrow> oid \<Rightarrow> string option \<Rightarrow> oid \<Rightarrow> store \<Rightarrow> outcome \<times> store" where
  "add_comment caller pid text fresh s =
     (let errors = check_not_empty ''text'' ''Text is required'' text
      in if errors \<noteq> [] then (Sent 400 (json_errors (ArrayValue errors)), s)
         else handle (add_comment_try caller pid text fresh)
                (catch_block ''err'' server_error) s)"

text \<open>\<^verbatim>\<open>DELETE api/posts/comment/:id/:comment_id\<close>, with \<^verbatim>\<open>catch (err)\<close>.\<close>

definition delete_comment_try :: "oid \<Rightarrow> oid \<Rightarrow> oid \<Rightarrow> outcome act" where
  "delete_comment_try caller pid cid =
     await (Post_findById pid) (\<lambda>found.
     await (deref found) (\<lambda>p.
       case find (\<lambda>c. comment_id c = cid) (comments p) of
         None \<Rightarrow> respond (Sent 404 (Msg ''Comment does not exist''))
       | Some c \<Rightarrow>
           if comment_user c \<noteq> caller
           then respond (Sent 401 (Msg ''User is not authorized''))
           else (let removeIndex = indexOf (map comment_user (comments p)) caller;
                     p' = p\<lparr>comments := splice_js removeIndex 1 (comments p)\<rparr>
                 in await (post_save pid p') (\<lambda>_.
                    respond (Sent 200 (CommentsBody (comments p')))))))"

definition delete_comment :: "oid \<Rightarrow> oid \<Rightarrow> oid \<Rightarrow> store \<Rightarrow> outcome \<times> store" where
  "delete_comment caller pid cid =
     handle (delete_comment_try caller pid cid) (catch_block ''err'' server_error)"

section \<open>Handlers of the profile routes\<close>

text \<open>The request bodies, as the handlers destructure them; an absent field is \<open>None\<close>.\<close>

record profile_body =
  b_company :: "string option"
  b_location :: "string option"
  b_website :: "string option"
  b_bio :: "string option"
  b_skills :: "skills_in option"
  b_status :: "string option"
  b_githubusername :: "string option"
  b_youtube :: "string option"
  b_twitter :: "string option"
  b_instagram :: "string option"
  b_linkedin :: "string option"
  b_facebook :: "string option"

record experience_body =
  x_title :: "string option"
  x_company :: "string option"
  x_location :: "string option"
  x_from :: "string option"
  x_to :: "string option"
  x_current :: "bool option"
  x_description :: "string option"

record education_body =
  d_school :: "string option"
  d_degree :: "string option"
  d_fieldofstudy :: "string option"
  d_from :: "string option"
  d_to :: "string option"
  d_current :: "bool option"
  d_description :: "string option"

text \<open>\<^verbatim>\<open>console.error(err.message); res.status(500).send('Server Error')\<close>\<close>

definition server_Error :: "exn \<Rightarrow> outcome" where
  "server_Error err = Sent 500 (Send ''Server Error'')"

text \<open>
  The URL normaliser is an external library: it is the parameter \<open>normalize_url\<close> of
  the upsert handler, applied to the link and to the option \<^verbatim>\<open>forceHttps\<close>, and
  \<open>normalize_url u h = None\<close> when it throws on \<open>u\<close>. The handler calls it as
  \<^verbatim>\<open>normalize(value, { forceHttps: true })\<close>.
\<close>

type_synonym normalizer = "string \<Rightarrow> bool \<Rightarrow> string option"

text \<open>
  \<^verbatim>\<open>website && website !== '' ? normalize(website, { forceHttps: true }) : ''\<close>
\<close>

definition website_field :: "normalizer \<Rightarrow> string option \<Rightarrow> exn + string" where
  "website_field normalize_url website =
     (case website of
        None \<Rightarrow> Inr []
      | Some w \<Rightarrow>
          if w \<noteq> [] then (case normalize_url w True of None \<Rightarrow> Inl UrlError | Some u \<Rightarrow> Inr u)
          else Inr [])"

text \<open>
  \<^verbatim>\<open>Array.isArray(skills) ? skills : skills.split(',').map((skill) => ' ' + skill.trim())\<close>;
  the method call on an absent value throws.
\<close>

definition skills_field :: "skills_in option \<Rightarrow> exn + string list" where
  "skills_field skills =
     (case skills of
        None \<Rightarrow> Inl TypeError
      | Some (SkillsArray xs) \<Rightarrow> Inr xs
      | Some (SkillsString str) \<Rightarrow>
          Inr (map (\<lambda>skill. CHR '' '' # trim skill) (split_js (CHR '','') str)))"

text \<open>
  One round of the loop over the social links:
  \<^verbatim>\<open>if (value && value.length > 0) socialfields[key] = normalize(value, { forceHttps: true })\<close>;
  otherwise the entry stays what the request held.
\<close>

definition social_field :: "normalizer \<Rightarrow> string option \<Rightarrow> exn + string option" where
  "social_field normalize_url v =
     (case v of
        None \<Rightarrow> Inr None
      | Some l \<Rightarrow>
          if length l > 0
          then (case normalize_url l True of None \<Rightarrow> Inl UrlError | Some u \<Rightarrow> Inr (Some u))
          else Inr (Some l))"

definition and_then :: "exn + 'a \<Rightarrow> ('a \<Rightarrow> exn + 'b) \<Rightarrow> exn + 'b" where
  "and_then r f = (case r of Inl e \<Rightarrow> Inl e | Inr x \<Rightarrow> f x)"

text \<open>
  The object \<^verbatim>\<open>profileFields\<close>, built before the \<^verbatim>\<open>try\<close> block: an exception here
  leaves the handler.
\<close>

definition build_profileFields :: "normalizer \<Rightarrow> oid \<Rightarrow> profile_body \<Rightarrow> exn + profile" where
  "build_profileFields normalize_url caller body =
     and_then (website_field normalize_url (b_website body)) (\<lambda>website.
     and_then (skills_field (b_skills body)) (\<lambda>skills.
     and_then (social_field normalize_url (b_youtube body)) (\<lambda>yt.
     and_then (social_field normalize_url (b_twitter body)) (\<lambda>tw.
     and_then (social_field normalize_url (b_instagram body)) (\<lambda>ig.
     and_then (social_field normalize_url (b_linkedin body)) (\<lambda>li.
     and_then (social_field normalize_url (b_facebook body)) (\<lambda>fb.
       Inr \<lparr>prof_user = caller,
            prof_company = b_company body,
            prof_location = b_location body,
            prof_website = website,
            prof_bio = b_bio body,
            prof_skills = skills,
            prof_status = b_status body,
            prof_githubusername = b_githubusername body,
            prof_social = \<lparr>youtube = yt, twitter = tw, instagram = ig,
                            linkedin = li, facebook = fb\<rparr>,
            prof_experience = [],
            prof_education = []\<rparr>)))))))"

text \<open>\<^verbatim>\<open>POST api/profile\<close>, with \<^verbatim>\<open>catch (err)\<close>.\<close>

definition profile_upsert ::
  "normalizer \<Rightarrow> oid \<Rightarrow> profile_body \<Rightarrow> store \<Rightarrow> outcome \<times> store" where
  "profile_upsert normalize_url caller body s =
     (let errors = check_not_empty ''status'' ''Status is required'' (b_status body)
                 @ check_skills ''skills'' ''Skills are required'' (b_skills body)
      in if errors \<noteq> [] then (Sent 400 (json_errors (ArrayValue errors)), s)
         else (case build_profileFields normalize_url caller body of
                 Inl e \<Rightarrow> (Rejected e, s)
               | Inr profileFields \<Rightarrow>
                   handle
                     (await (Profile_findOneAndUpdate caller profileFields) (\<lambda>profile.
                        respond (Sent 200 (ProfileBody profile))))
                     (catch_block ''err'' server_Error) s))"

text \<open>\<^verbatim>\<open>GET api/profile/user/:user_id\<close>, with \<^verbatim>\<open>catch (err)\<close>.\<close>

definition get_profile_by_user :: "oid \<Rightarrow> store \<Rightarrow> outcome \<times> store" where
  "get_profile_by_user user_id =
     handle
       (await (Profile_findOne_populate user_id) (\<lambda>profile.
          case profile of
            None \<Rightarrow> respond (Sent 400 (Msg ''Profile not found''))
          | Some (p, u) \<Rightarrow> respond (Sent 200 (PopulatedProfile p u))))
       (catch_block ''err'' profile_not_found_or_500)"

text \<open>
  \<^verbatim>\<open>PUT api/profile/experience\<close>, with \<^verbatim>\<open>catch (err)\<close>. The validation branch sends
  \<^verbatim>\<open>{ errors: errors.array }\<close>.
\<close>

definition add_experience_try :: "oid \<Rightarrow> experience_body \<Rightarrow> oid \<Rightarrow> outcome act" where
  "add_experience_try caller body fresh =
     (let newExp = \<lparr>exp_id = fresh, exp_title = x_title body, exp_company = x_company body,
                     exp_location = x_location body, exp_from = x_from body,
                     exp_to = x_to body, exp_current = x_current body,
                     exp_description = x_description body\<rparr>
      in await (Profile_findOne caller) (\<lambda>found.
         await (deref found) (\<lambda>p.
           let p' = p\<lparr>prof_experience := newExp # prof_experience p\<rparr>
           in await (profile_save caller p') (\<lambda>_.
              respond (Sent 200 (ProfileBody p'))))))"

definition add_experience ::
  "oid \<Rightarrow> experience_body \<Rightarrow> oid \<Rightarrow> store \<Rightarrow> outcome \<times> store" where
  "add_experience caller body fresh s =
     (let errors = check_not_empty ''title'' ''Title is required'' (x_title body)
                 @ check_not_empty ''company'' ''Company is required'' (x_company body)
                 @ check_not_empty ''from'' ''From date is required'' (x_from body)
      in if errors \<noteq> [] then (Sent 400 (json_errors MethodRef), s)
         else handle (add_experience_try caller body fresh)
                (catch_block ''err'' server_error) s)"

text \<open>\<^verbatim>\<open>DELETE api/profile/experience/:exp_id\<close>, with \<^verbatim>\<open>catch (err)\<close>.\<close>

definition remove_experience_try :: "oid \<Rightarrow> oid \<Rightarrow> outcome act" where
  "remove_experience_try caller exp_id_param =
     await (Profile_findOne caller) (\<lambda>found.
     await (deref found) (\<lambda>p.
       let removeIndex = indexOf (map exp_id (prof_experience p)) exp_id_param;
           p' = p\<lparr>prof_experience := splice_js removeIndex 1 (prof_experience p)\<rparr>
       in await (profile_save caller p') (\<lambda>_.
          respond (Sent 200 (ProfileBody p')))))"

definition remove_experience :: "oid \<Rightarrow> oid \<Rightarrow> store \<Rightarrow> outcome \<times> store" where
  "remove_experience caller exp_id_param =
     handle (remove_experience_try caller exp_id_param) (catch_block ''err'' server_error)"

text \<open>
  \<^verbatim>\<open>PUT api/profile/education\<close>, with \<^verbatim>\<open>catch (err)\<close>. The validation branch sends
  \<^verbatim>\<open>{ errors: errors.array }\<close>.
\<close>

definition add_education_try :: "oid \<Rightarrow> education_body \<Rightarrow> oid \<Rightarrow> outcome act" where
  "add_education_try caller body fresh =
     (let newEdu = \<lparr>edu_id = fresh, edu_school = d_school body, edu_degree = d_degree body,
                     edu_fieldofstudy = d_fieldofstudy body, edu_from = d_from body,
                     edu_to = d_to body, edu_current = d_current body,
                     edu_description = d_description body\<rparr>
      in await (Profile_findOne caller) (\<lambda>found.
         await (deref found) (\<lambda>p.
           let p' = p\<lparr>prof_education := newEdu # prof_education p\<rparr>
           in await (profile_save caller p') (\<lambda>_.
              respond (Sent 200 (ProfileBody p'))))))"

definition add_education ::
  "oid \<Rightarrow> education_body \<Rightarrow> oid \<Rightarrow> store \<Rightarrow> outcome \<times> store" where
  "add_education caller body fresh s =
     (let errors = check_not_empty ''school'' ''School is required'' (d_school body)
                 @ check_not_empty ''degree'' ''Degree is required'' (d_degree body)
                 @ check_not_empty ''fieldofstudy'' ''Field of study is required''
                     (d_fieldofstudy body)
                 @ check_not_empty ''from'' ''from date is required'' (d_from body)
      in if errors \<noteq> [] then (Sent 400 (json_errors MethodRef), s)
         else handle (add_education_try caller body fresh)
                (catch_block ''err'' server_error) s)"

text \<open>\<^verbatim>\<open>DELETE api/profile/education/:edu_id\<close>, with \<^verbatim>\<open>catch (err)\<close>.\<close>

definition remove_education_try :: "oid \<Rightarrow> oid \<Rightarrow> outcome act" where
  "remove_education_try caller edu_id_param =
     await (Profile_findOne caller) (\<lambda>found.
     await (deref found) (\<lambda>p.
       let removeIndex = indexOf (map edu_id (prof_education p)) edu_id_param;
           p' = p\<lparr>prof_education := splice_js removeIndex 1 (prof_education p)\<rparr>
       in await (profile_save caller p') (\<lambda>_.
          respond (Sent 200 (ProfileBody p')))))"

definition remove_education :: "oid \<Rightarrow> oid \<Rightarrow> store \<Rightarrow> outcome \<times> store" where
  "remove_education caller edu_id_param =
     handle (remove_education_try caller edu_id_param) (catch_block ''err'' server_error)"

section \<open>Reachable stores\<close>

text \<open>
  The stores the routes can produce: no posts at first, then any handler of the post
  routes, with any caller and any arguments; anything else (the profile routes, among
  them the deletion of an account with its posts by \<^verbatim>\<open>Post.deleteMany\<close>, and the store
  failing or recovering) changes no post, and may remove posts.
\<close>

inductive reachable :: "store \<Rightarrow> bool" where
  initial: "posts s = Map.empty \<Longrightarrow> reachable s"
| elsewhere: "reachable s \<Longrightarrow> posts s' \<subseteq>\<^sub>m posts s \<Longrightarrow> reachable s'"
| created: "reachable s \<Longrightarrow> create_post caller text fresh s = (out, s') \<Longrightarrow> reachable s'"
| deleted: "reachable s \<Longrightarrow> delete_post caller pid s = (out, s') \<Longrightarrow> reachable s'"
| liked: "reachable s \<Longrightarrow> like_post caller pid s = (out, s') \<Longrightarrow> reachable s'"
| unliked: "reachable s \<Longrightarrow> unlike_post caller pid s = (out, s') \<Longrightarrow> reachable s'"
| commented:
    "reachable s \<Longrightarrow> add_comment caller pid text fresh s = (out, s') \<Longrightarrow> reachable s'"
| uncommented:
    "reachable s \<Longrightarrow> delete_comment caller pid cid s = (out, s') \<Longrightarrow> reachable s'"

text \<open>Each user appears at most once among the likes of each post.\<close>

definition likes_unique :: "store \<Rightarrow> bool" where
  "likes_unique s = (\<forall>pid p. posts s pid = Some p \<longrightarrow> distinct (map like_user (likes p)))"

section \<open>Sample data\<close>

text \<open>Two accounts, a post of the first, and a store holding them.\<close>

definition alice :: oid where
  "alice = ''5f0000000000000000000a11''"

definition bob :: oid where
  "bob = ''5f0000000000000000000b0b''"

definition post1 :: oid where
  "post1 = ''600000000000000000000001''"

definition alice_post :: post where
  "alice_post = \<lparr>post_user = alice, post_text = ''hello'', post_name = ''Alice'',
                  post_avatar = ''a.png'', likes = [], comments = []\<rparr>"

definition sample_store :: store where
  "sample_store =
     \<lparr>users = [alice \<mapsto> \<lparr>user_name = ''Alice'', user_avatar = ''a.png''\<rparr>,
               bob \<mapsto> \<lparr>user_name = ''Bob'', user_avatar = ''b.png''\<rparr>],
      profiles = Map.empty,
      posts = [post1 \<mapsto> alice_post],
      budget = None\<rparr>"

text \<open>
  A profile of the first account with one experience entry and one education entry, and
  two identifiers that name no entry.
\<close>

definition exp1 :: oid where
  "exp1 = ''610000000000000000000001''"

definition edu1 :: oid where
  "edu1 = ''620000000000000000000001''"

definition other_id :: oid where
  "other_id = ''6f00000000000000000000ff''"

definition job :: experience where
  "job = \<lparr>exp_id = exp1, exp_title = Some ''Engineer'', exp_company = Some ''Acme'',
           exp_location = None, exp_from = Some ''2019-01-01'', exp_to = None,
           exp_current = Some True, exp_description = None\<rparr>"

definition school :: education where
  "school = \<lparr>edu_id = edu1, edu_school = Some ''MIT'', edu_degree = Some ''BSc'',
              edu_fieldofstudy = Some ''CS'', edu_from = Some ''2014-09-01'',
              edu_to = Some ''2018-06-01'', edu_current = Some False,
              edu_description = None\<rparr>"

definition alice_profile :: profile where
  "alice_profile =
     \<lparr>prof_user = alice, prof_company = None, prof_location = None, prof_website = [],
      prof_bio = None, prof_skills = ['' js''], prof_status = Some ''dev'',
      prof_githubusername = None,
      prof_social = \<lparr>youtube = None, twitter = None, instagram = None, linkedin = None,
                      facebook = None\<rparr>,
      prof_experience = [job], prof_education = [school]\<rparr>"

definition profile_store :: store where
  "profile_store = sample_store\<lparr>profiles := [alice \<mapsto> alice_profile]\<rparr>"

text \<open>A post with two comments of the second account.\<close>

definition cm1 :: oid where
  "cm1 = ''630000000000000000000001''"

definition cm2 :: oid where
  "cm2 = ''630000000000000000000002''"

definition comment1 :: comment where
  "comment1 = \<lparr>comment_id = cm1, comment_user = bob, comment_text = ''first'',
                comment_name = ''Bob'', comment_avatar = ''b.png''\<rparr>"

definition comment2 :: comment where
  "comment2 = \<lparr>comment_id = cm2, comment_user = bob, comment_text = ''second'',
                comment_name = ''Bob'', comment_avatar = ''b.png''\<rparr>"

definition commented_store :: store where
  "commented_store =
     sample_store\<lparr>posts := [post1 \<mapsto> alice_post\<lparr>comments := [comment1, comment2]\<rparr>]\<rparr>"

text \<open>Request bodies without any field.\<close>

definition no_experience_fields :: experience_body where
  "no_experience_fields =
     \<lparr>x_title = None, x_company = None, x_location = None, x_from = None, x_to = None,
      x_current = None, x_description = None\<rparr>"

definition no_education_fields :: education_body where
  "no_education_fields =
     \<lparr>d_school = None, d_degree = None, d_fieldofstudy = None, d_from = None, d_to = None,
      d_current = None, d_description = None\<rparr>"

section \<open>Stored links and sample requests\<close>

text \<open>
  Whether the normaliser returns on a link that the handler passes to it, and what the
  handler then keeps for the link.
\<close>

definition normalizes :: "normalizer \<Rightarrow> string option \<Rightarrow> bool" where
  "normalizes normalize_url v =
     (case v of None \<Rightarrow> True | Some u \<Rightarrow> if u = [] then True else normalize_url u True \<noteq> None)"

definition stored_link :: "normalizer \<Rightarrow> string option \<Rightarrow> string option" where
  "stored_link normalize_url v =
     (case v of None \<Rightarrow> None | Some u \<Rightarrow> if u = [] then Some [] else normalize_url u True)"

text \<open>
  A stand-in for the library in the examples: like the library it trims its input and
  throws when nothing is left to parse; otherwise it answers with an HTTPS URL when
  \<^verbatim>\<open>forceHttps\<close> is set.
\<close>

definition sample_normalize :: normalizer where
  "sample_normalize u forceHttps =
     (if trim u = [] then None
      else Some ((if forceHttps then ''https://'' else ''http://'') @ trim u))"

text \<open>What the handler keeps for the website, when the normaliser returns.\<close>

definition stored_website :: "normalizer \<Rightarrow> string option \<Rightarrow> string option" where
  "stored_website normalize_url v =
     (case v of None \<Rightarrow> Some [] | Some w \<Rightarrow> if w = [] then Some [] else normalize_url w True)"

text \<open>The request passes the two checks of the upsert route.\<close>

definition valid_profile_body :: "profile_body \<Rightarrow> bool" where
  "valid_profile_body body =
     (check_not_empty ''status'' ''Status is required'' (b_status body)
        @ check_skills ''skills'' ''Skills are required'' (b_skills body) = [])"

text \<open>
  The request of the specification's end-to-end example, the same with a blank website,
  and one with links.
\<close>

definition minimal_body :: profile_body where
  "minimal_body =
     \<lparr>b_company = None, b_location = None, b_website = None, b_bio = None,
      b_skills = Some (SkillsString ''js, node''), b_status = Some ''dev'',
      b_githubusername = None, b_youtube = None, b_twitter = None,
      b_instagram = None, b_linkedin = None, b_facebook = None\<rparr>"

definition blank_site_body :: profile_body where
  "blank_site_body = minimal_body\<lparr>b_website := Some '' ''\<rparr>"

definition sample_body :: profile_body where
  "sample_body =
     \<lparr>b_company = None, b_location = None, b_website = Some ''example.com'', b_bio = None,
      b_skills = Some (SkillsString ''js, node''), b_status = Some ''dev'',
      b_githubusername = None, b_youtube = Some [], b_twitter = Some ''twitter.com/a '',
      b_instagram = None, b_linkedin = None, b_facebook = None\<rparr>"

text \<open>\<^verbatim>\<open>Array.prototype.join\<close> with a one-character separator, the inverse of the split.\<close>

fun join_js :: "char \<Rightarrow> string list \<Rightarrow> string" where
  "join_js d [] = []"
| "join_js d [x] = x"
| "join_js d (x # y # ys) = x @ d # join_js d (y # ys)"

section \<open>Store calls and array operations\<close>

lemma db_call_ok: "available (Suc n) s \<Longrightarrow> db_call s = (Inr (), spend 1 s)"
  by (cases s) (auto simp: db_call_def available_def spend_def split: option.splits nat.splits)

lemma available_spend: "available (Suc n) s \<Longrightarrow> available n (spend 1 s)"
  by (auto simp: available_def spend_def split: option.splits)

lemma available_mono: "available (Suc n) s \<Longrightarrow> available n s"
  by (auto simp: available_def split: option.splits)

lemma spend_spend: "spend m (spend n s) = spend (n + m) s"
  by (cases s) (auto simp: spend_def option.map_comp comp_def split: option.splits)

lemma spend_fields [simp]:
  "posts (spend n s) = posts s" "profiles (spend n s) = profiles s" "users (spend n s) = users s"
  by (simp_all add: spend_def)

lemma sample_ids [simp]:
  "valid_oid alice" "valid_oid bob" "valid_oid post1" "alice \<noteq> bob" "bob \<noteq> alice"
  by (simp_all add: valid_oid_def is_hex_def alice_def bob_def post1_def)

lemma sample_available [simp]: "available n sample_store"
  by (simp add: available_def sample_store_def)

lemma spend_sample [simp]: "spend n sample_store = sample_store"
  by (simp add: spend_def sample_store_def)

lemma filter_present:
  "(length (filter (\<lambda>l. like_user l = c) ls) > 0) = (c \<in> like_user ` set ls)"
  by (induction ls) auto

lemma filter_absent:
  "(length (filter (\<lambda>l. like_user l = c) ls) = 0) = (c \<notin> like_user ` set ls)"
  by (induction ls) auto

lemma findById_ok:
  "valid_oid pid \<Longrightarrow> available (Suc n) s \<Longrightarrow>
   Post_findById pid s = (Inr (posts s pid), spend 1 s)"
  by (simp add: Post_findById_def await_def db_call_ok)

lemma post_save_ok:
  "available (Suc n) s \<Longrightarrow>
   post_save pid p s = (Inr (), (spend 1 s)\<lparr>posts := (posts s)(pid \<mapsto> p)\<rparr>)"
  by (simp add: post_save_def await_def db_call_ok)

lemma indexOf_absent: "x \<notin> set xs \<Longrightarrow> indexOf xs x = - 1"
  by (induction xs) (auto simp: Let_def)

lemma indexOf_present:
  "x \<in> set xs \<Longrightarrow> 0 \<le> indexOf xs x \<and> indexOf xs x < int (length xs)"
  by (induction xs) (auto simp: Let_def)

lemma splice_present:
  "c \<in> f ` set ls \<Longrightarrow>
   splice_js (indexOf (map f ls) c) (Suc 0) ls =
     takeWhile (\<lambda>l. f l \<noteq> c) ls @ tl (dropWhile (\<lambda>l. f l \<noteq> c) ls)"
proof (induction ls)
  case Nil
  then show ?case by simp
next
  case (Cons a ls)
  show ?case
  proof (cases "f a = c")
    case True
    then show ?thesis by (simp add: splice_js_def)
  next
    case False
    with Cons.prems have m: "c \<in> f ` set ls" by auto
    then have "c \<in> set (map f ls)" by simp
    from indexOf_present[OF this]
    have b: "0 \<le> indexOf (map f ls) c" "indexOf (map f ls) c < int (length ls)" by auto
    from Cons.IH[OF m] b False show ?thesis
      by (simp add: splice_js_def Let_def nat_add_distrib min_def)
  qed
qed

lemma remove_first_like:
  "takeWhile (\<lambda>l. like_user l \<noteq> c) ls @ tl (dropWhile (\<lambda>l. like_user l \<noteq> c) ls)
     = remove1 \<lparr>like_user = c\<rparr> ls"
  by (induction ls) auto

lemma splice_like:
  "c \<in> like_user ` set ls \<Longrightarrow>
   splice_js (indexOf (map like_user ls) c) (Suc 0) ls = remove1 \<lparr>like_user = c\<rparr> ls"
  using splice_present[of c like_user ls] remove_first_like[of c ls] by simp

section \<open>Likes\<close>

text \<open>
  C4. For a post that exists, with the store answering: a like by a user who is already
  among the post's likes is answered 400 with the message "Post already liked" and
  changes no post, so the likes list keeps its length; otherwise a like entry for the
  caller is put in front of the likes list, the post is saved, and the response (200) is
  the updated likes list, not the post.
\<close>

theorem like_post_spec:
  assumes "valid_oid pid" and "posts s pid = Some p" and "available 2 s"
  shows "like_post caller pid s =
    (if caller \<in> like_user ` set (likes p)
     then (Sent 400 (Msg ''Post already liked''), spend 1 s)
     else (Sent 200 (LikesBody (\<lparr>like_user = caller\<rparr> # likes p)),
           (spend 2 s)\<lparr>posts := (posts s)(pid \<mapsto> p\<lparr>likes := \<lparr>like_user = caller\<rparr> # likes p\<rparr>)\<rparr>))"
proof -
  from assms(3) have a1: "available (Suc 1) s" by (simp add: numeral_2_eq_2)
  have a2: "available (Suc 0) (spend 1 s)" using available_spend[OF a1] by simp
  have f: "Post_findById pid s = (Inr (Some p), spend 1 s)"
    using findById_ok[OF assms(1) a1] assms(2) by simp
  show ?thesis
    using f post_save_ok[OF a2, of pid]
    by (simp add: like_post_def handle_def like_try_def await_def deref_def respond_def
        filter_present spend_spend Let_def numeral_2_eq_2 del: length_greater_0_conv)
qed

theorem like_post_spec_witness:
  "valid_oid post1 \<and> posts sample_store post1 = Some alice_post \<and> available 2 sample_store
   \<and> fst (like_post bob post1 sample_store) = Sent 200 (LikesBody [\<lparr>like_user = bob\<rparr>])
   \<and> like_post bob post1 (snd (like_post bob post1 sample_store))
       = (Sent 400 (Msg ''Post already liked''), snd (like_post bob post1 sample_store))"
proof -
  let ?p1 = "alice_post\<lparr>likes := [\<lparr>like_user = bob\<rparr>]\<rparr>"
  let ?s1 = "sample_store\<lparr>posts := (posts sample_store)(post1 \<mapsto> ?p1)\<rparr>"
  have h1: "valid_oid post1" by simp
  have h2: "posts sample_store post1 = Some alice_post" by (simp add: sample_store_def)
  have h3: "available 2 sample_store" by simp
  have first: "like_post bob post1 sample_store = (Sent 200 (LikesBody [\<lparr>like_user = bob\<rparr>]), ?s1)"
    using like_post_spec[OF h1 h2 h3, of bob] by (simp add: alice_post_def)
  have k2: "posts ?s1 post1 = Some ?p1" by simp
  have k3: "available 2 ?s1" by (simp add: available_def sample_store_def)
  have sp: "spend 1 ?s1 = ?s1" by (simp add: spend_def sample_store_def)
  have second: "like_post bob post1 ?s1 = (Sent 400 (Msg ''Post already liked''), ?s1)"
    using like_post_spec[OF h1 k2 k3, of bob] sp by simp
  show ?thesis using h1 h2 h3 first second by simp
qed

text \<open>
  C5. For a post that exists, with the store answering: an unlike by a user who is not
  among the post's likes is answered 400 with the message "Post has not yet been liked"
  and changes no post; otherwise the first entry of the caller is removed from the likes
  list, the post is saved, and the response (200) is the updated likes list.
\<close>

theorem unlike_post_spec:
  assumes "valid_oid pid" and "posts s pid = Some p" and "available 2 s"
  shows "unlike_post caller pid s =
    (if caller \<notin> like_user ` set (likes p)
     then (Sent 400 (Msg ''Post has not yet been liked''), spend 1 s)
     else (Sent 200 (LikesBody (remove1 \<lparr>like_user = caller\<rparr> (likes p))),
           (spend 2 s)\<lparr>posts := (posts s)(pid \<mapsto> p\<lparr>likes := remove1 \<lparr>like_user = caller\<rparr> (likes p)\<rparr>)\<rparr>))"
proof -
  from assms(3) have a1: "available (Suc 1) s" by (simp add: numeral_2_eq_2)
  have a2: "available (Suc 0) (spend 1 s)" using available_spend[OF a1] by simp
  have f: "Post_findById pid s = (Inr (Some p), spend 1 s)"
    using findById_ok[OF assms(1) a1] assms(2) by simp
  show ?thesis
    using f post_save_ok[OF a2, of pid]
    by (simp add: unlike_post_def handle_def unlike_try_def await_def deref_def respond_def
        filter_absent spend_spend Let_def numeral_2_eq_2 splice_like del: length_0_conv)
qed

theorem unlike_post_spec_witness:
  "valid_oid post1 \<and> posts sample_store post1 = Some alice_post \<and> available 2 sample_store
   \<and> unlike_post bob post1 sample_store
       = (Sent 400 (Msg ''Post has not yet been liked''), sample_store)
   \<and> fst (unlike_post bob post1
        (sample_store\<lparr>posts := [post1 \<mapsto> alice_post\<lparr>likes := [\<lparr>like_user = alice\<rparr>, \<lparr>like_user = bob\<rparr>]\<rparr>]\<rparr>))
       = Sent 200 (LikesBody [\<lparr>like_user = alice\<rparr>])"
proof -
  let ?p1 = "alice_post\<lparr>likes := [\<lparr>like_user = alice\<rparr>, \<lparr>like_user = bob\<rparr>]\<rparr>"
  let ?s1 = "sample_store\<lparr>posts := [post1 \<mapsto> ?p1]\<rparr>"
  have h1: "valid_oid post1" by simp
  have h2: "posts sample_store post1 = Some alice_post" by (simp add: sample_store_def)
  have h3: "available 2 sample_store" by simp
  have first: "unlike_post bob post1 sample_store
       = (Sent 400 (Msg ''Post has not yet been liked''), sample_store)"
    using unlike_post_spec[OF h1 h2 h3, of bob] by (simp add: alice_post_def)
  have k2: "posts ?s1 post1 = Some ?p1" by simp
  have k3: "available 2 ?s1" by (simp add: available_def sample_store_def)
  have second: "fst (unlike_post bob post1 ?s1) = Sent 200 (LikesBody [\<lparr>like_user = alice\<rparr>])"
    using unlike_post_spec[OF h1 k2 k3, of bob] by simp
  show ?thesis using h1 h2 h3 first second by simp
qed

section \<open>Uniqueness of likes\<close>

lemma distinct_take_drop:
  assumes "distinct ys" shows "distinct (take k ys @ drop (k + n) ys)"
proof -
  have "distinct (take k ys @ drop k ys)" using assms by simp
  then have d: "set (take k ys) \<inter> set (drop k ys) = {}" by (simp only: distinct_append)
  have "set (drop (k + n) ys) \<subseteq> set (drop k ys)"
    by (rule set_drop_subset_set_drop) simp
  with d have "set (take k ys) \<inter> set (drop (k + n) ys) = {}" by blast
  then show ?thesis using assms by simp
qed

lemma distinct_splice:
  "distinct (map f xs) \<Longrightarrow> distinct (map f (splice_js i n xs))"
  using distinct_take_drop[of "map f xs"]
  by (simp add: splice_js_def Let_def take_map drop_map)

lemmas handler_defs =
  handle_def await_def respond_def throw_def deref_def db_call_def
  Post_findById_def User_findById_def post_save_def post_insert_def post_remove_def
  catch_block_def read_err_def

lemma like_post_posts:
  assumes "like_post caller pid s = (out, s')"
  shows "posts s' = posts s \<or>
     (\<exists>p. posts s pid = Some p \<and> caller \<notin> like_user ` set (likes p) \<and>
          posts s' = (posts s)(pid \<mapsto> p\<lparr>likes := \<lparr>like_user = caller\<rparr> # likes p\<rparr>))"
  using assms
  by (auto simp: like_post_def like_try_def handler_defs Let_def filter_empty_conv
      split: if_splits option.splits nat.splits prod.splits sum.splits)

lemma unlike_post_posts:
  assumes "unlike_post caller pid s = (out, s')"
  shows "posts s' = posts s \<or>
     (\<exists>p i. posts s pid = Some p \<and>
          posts s' = (posts s)(pid \<mapsto> p\<lparr>likes := splice_js i 1 (likes p)\<rparr>))"
  using assms
  by (auto simp: unlike_post_def unlike_try_def handler_defs Let_def
      split: if_splits option.splits nat.splits prod.splits sum.splits)

lemma create_post_posts:
  assumes "create_post caller text fresh s = (out, s')"
  shows "posts s' q = Some p' \<Longrightarrow> posts s q = Some p' \<or> likes p' = []"
  using assms
  by (auto simp: create_post_def create_post_try_def handler_defs Let_def
      split: if_splits option.splits nat.splits prod.splits sum.splits)

lemma delete_post_posts:
  assumes "delete_post caller pid s = (out, s')"
  shows "posts s' = posts s \<or> posts s' = (posts s)(pid := None)"
  using assms
  by (auto simp: delete_post_def delete_post_try_def handler_defs Let_def
      split: if_splits option.splits nat.splits prod.splits sum.splits)

lemma add_comment_posts:
  assumes "add_comment caller pid text fresh s = (out, s')"
  shows "posts s' = posts s \<or>
     (\<exists>p cs. posts s pid = Some p \<and> posts s' = (posts s)(pid \<mapsto> p\<lparr>comments := cs\<rparr>))"
  using assms
  by (auto simp: add_comment_def add_comment_try_def handler_defs Let_def
      split: if_splits option.splits nat.splits prod.splits sum.splits)

lemma delete_comment_posts:
  assumes "delete_comment caller pid cid s = (out, s')"
  shows "posts s' = posts s \<or>
     (\<exists>p cs. posts s pid = Some p \<and> posts s' = (posts s)(pid \<mapsto> p\<lparr>comments := cs\<rparr>))"
  using assms
  by (auto simp: delete_comment_def delete_comment_try_def handler_defs Let_def
      split: if_splits option.splits nat.splits prod.splits sum.splits)

lemma like_preserves:
  assumes "like_post caller pid s = (out, s')" and "likes_unique s"
  shows "likes_unique s'"
  using like_post_posts[OF assms(1)] assms(2)
  by (auto simp: likes_unique_def split: if_splits)

lemma unlike_preserves:
  assumes "unlike_post caller pid s = (out, s')" and "likes_unique s"
  shows "likes_unique s'"
  using unlike_post_posts[OF assms(1)] assms(2)
  by (auto simp: likes_unique_def distinct_splice split: if_splits)

lemma create_preserves:
  assumes "create_post caller text fresh s = (out, s')" and "likes_unique s"
  shows "likes_unique s'"
  using create_post_posts[OF assms(1)] assms(2)
  by (fastforce simp: likes_unique_def)

lemma delete_preserves:
  assumes "delete_post caller pid s = (out, s')" and "likes_unique s"
  shows "likes_unique s'"
  using delete_post_posts[OF assms(1)] assms(2)
  by (auto simp: likes_unique_def split: if_splits)

lemma add_comment_preserves:
  assumes "add_comment caller pid text fresh s = (out, s')" and "likes_unique s"
  shows "likes_unique s'"
  using add_comment_posts[OF assms(1)] assms(2)
  by (auto simp: likes_unique_def split: if_splits)

lemma delete_comment_preserves:
  assumes "delete_comment caller pid cid s = (out, s')" and "likes_unique s"
  shows "likes_unique s'"
  using delete_comment_posts[OF assms(1)] assms(2)
  by (auto simp: likes_unique_def split: if_splits)

text \<open>
  C3. In every reachable store, each user appears at most once in the likes list of each
  post. The like handler adds an entry only for a caller who is not in the list, the
  unlike handler only removes an entry, and no other handler changes a likes list, so
  every step keeps the likes of a post unique per user.
\<close>

theorem likes_unique_reachable:
  assumes "reachable s" and "posts s pid = Some p"
  shows "distinct (map like_user (likes p))"
proof -
  from assms(1) have "likes_unique s"
  proof (induction rule: reachable.induct)
    case (initial s)
    then show ?case by (simp add: likes_unique_def)
  next
    case (elsewhere s s')
    then show ?case by (auto simp: likes_unique_def map_le_def dom_def)
  next
    case (created s caller t fresh out s')
    then show ?case using create_preserves by blast
  next
    case (deleted s caller pid out s')
    then show ?case using delete_preserves by blast
  next
    case (liked s caller pid out s')
    then show ?case using like_preserves by blast
  next
    case (unliked s caller pid out s')
    then show ?case using unlike_preserves by blast
  next
    case (commented s caller pid t fresh out s')
    then show ?case using add_comment_preserves by blast
  next
    case (uncommented s caller pid cid out s')
    then show ?case using delete_comment_preserves by blast
  qed
  with assms(2) show ?thesis by (simp add: likes_unique_def)
qed

theorem likes_unique_reachable_witness:
  "reachable (snd (like_post bob post1 sample_store))
   \<and> posts (snd (like_post bob post1 sample_store)) post1
       = Some (alice_post\<lparr>likes := [\<lparr>like_user = bob\<rparr>]\<rparr>)
   \<and> distinct (map like_user (likes (alice_post\<lparr>likes := [\<lparr>like_user = bob\<rparr>]\<rparr>)))"
proof -
  let ?s0 = "sample_store\<lparr>posts := Map.empty\<rparr>"
  let ?s2 = "snd (like_post bob post1 sample_store)"
  have r0: "reachable ?s0" by (rule reachable.initial) simp
  have c: "create_post alice (Some ''hello'') post1 ?s0
             = (Sent 200 (PostBody alice_post), sample_store)"
    by (simp add: create_post_def create_post_try_def handler_defs check_not_empty_def
        isEmpty_def to_string_def sample_store_def alice_post_def Let_def)
  have r1: "reachable sample_store" by (rule reachable.created[OF r0 c])
  have r2: "reachable ?s2"
    by (rule reachable.liked[OF r1, of bob post1 "fst (like_post bob post1 sample_store)"]) simp
  have l: "like_post bob post1 sample_store =
      (Sent 200 (LikesBody [\<lparr>like_user = bob\<rparr>]),
       sample_store\<lparr>posts := (posts sample_store)(post1 \<mapsto> alice_post\<lparr>likes := [\<lparr>like_user = bob\<rparr>]\<rparr>)\<rparr>)"
    by (simp add: like_post_def like_try_def handler_defs sample_store_def alice_post_def
        Let_def)
  have p2: "posts ?s2 post1 = Some (alice_post\<lparr>likes := [\<lparr>like_user = bob\<rparr>]\<rparr>)"
    by (simp add: l)
  from likes_unique_reachable[OF r2 p2] r2 p2 show ?thesis by simp
qed

section \<open>Deleting a post\<close>

text \<open>
  C8. With the store answering: a delete request by a caller who is not the post's author
  is answered 401 and the post stays in the store as it was; a delete by the author
  removes the post from the store; a delete of an identifier that names no post (or is
  not well-formed) is answered 404.
\<close>

theorem delete_post_spec:
  assumes "available 2 s"
  shows "delete_post caller pid s =
    (if \<not> valid_oid pid then (Sent 404 (Msg ''Post not found''), s)
     else case posts s pid of
       None \<Rightarrow> (Sent 404 (Msg ''Post not found''), spend 1 s)
     | Some p \<Rightarrow>
         if post_user p \<noteq> caller
         then (Sent 401 (Msg ''User is not authorized''), spend 1 s)
         else (Sent 200 (Msg ''Post removed''), (spend 2 s)\<lparr>posts := (posts s)(pid := None)\<rparr>))"
proof (cases "valid_oid pid")
  case False
  then show ?thesis
    by (simp add: delete_post_def delete_post_try_def handle_def await_def Post_findById_def
        throw_def catch_block_def read_err_def post_not_found_or_500_def)
next
  case True
  from assms have a1: "available (Suc 1) s" by (simp add: numeral_2_eq_2)
  have a2: "available (Suc 0) (spend 1 s)" using available_spend[OF a1] by simp
  have f: "Post_findById pid s = (Inr (posts s pid), spend 1 s)"
    using findById_ok[OF True a1] .
  have r: "post_remove pid (spend 1 s) = (Inr (), (spend 2 s)\<lparr>posts := (posts s)(pid := None)\<rparr>)"
    using db_call_ok[OF a2] by (simp add: post_remove_def await_def spend_spend numeral_2_eq_2)
  show ?thesis using True f r
    by (simp add: delete_post_def delete_post_try_def handle_def await_def respond_def
        split: option.splits)
qed

theorem delete_post_spec_witness:
  "available 2 sample_store
   \<and> delete_post bob post1 sample_store = (Sent 401 (Msg ''User is not authorized''), sample_store)
   \<and> posts (snd (delete_post bob post1 sample_store)) post1 = Some alice_post
   \<and> fst (delete_post alice post1 sample_store) = Sent 200 (Msg ''Post removed'')
   \<and> posts (snd (delete_post alice post1 sample_store)) post1 = None
   \<and> fst (delete_post alice bob sample_store) = Sent 404 (Msg ''Post not found'')
   \<and> fst (delete_post alice ''no-such-id'' sample_store) = Sent 404 (Msg ''Post not found'')"
proof -
  have h: "available 2 sample_store" by simp
  have p: "posts sample_store post1 = Some alice_post" "posts sample_store bob = None"
    by (simp_all add: sample_store_def post1_def bob_def)
  have u: "post_user alice_post = alice" by (simp add: alice_post_def)
  have v: "\<not> valid_oid ''no-such-id''" by (simp add: valid_oid_def)
  show ?thesis
    using h delete_post_spec[OF h, of bob post1] delete_post_spec[OF h, of alice post1]
      delete_post_spec[OF h, of alice bob] delete_post_spec[OF h, of alice "''no-such-id''"]
    by (simp add: p u v)
qed

section \<open>Profile by user identifier\<close>

text \<open>
  C10. A request for the profile of a user identifier that is not well-formed, and (with
  the store answering) one for a well-formed identifier that has no profile, get the same
  response: 400 with the message "Profile not found", so neither 404 nor 500.
\<close>

theorem profile_by_user_not_found:
  assumes "\<not> valid_oid user_id \<or> (available 1 s \<and> profiles s user_id = None)"
  shows "fst (get_profile_by_user user_id s) = Sent 400 (Msg ''Profile not found'')"
proof (cases "valid_oid user_id")
  case False
  then show ?thesis
    by (simp add: get_profile_by_user_def Profile_findOne_populate_def Profile_findOne_def
        handle_def await_def throw_def catch_block_def read_err_def
        profile_not_found_or_500_def)
next
  case True
  with assms have a: "available (Suc 0) s" and n: "profiles s user_id = None" by auto
  show ?thesis using True n db_call_ok[OF a]
    by (simp add: get_profile_by_user_def Profile_findOne_populate_def Profile_findOne_def
        handle_def await_def respond_def)
qed

theorem profile_by_user_not_found_witness:
  "\<not> valid_oid ''abc'' \<and> available 1 sample_store \<and> profiles sample_store bob = None
   \<and> fst (get_profile_by_user ''abc'' sample_store) = Sent 400 (Msg ''Profile not found'')
   \<and> fst (get_profile_by_user bob sample_store) = Sent 400 (Msg ''Profile not found'')"
proof -
  have h1: "\<not> valid_oid ''abc''" by (simp add: valid_oid_def)
  have h2: "available 1 sample_store" by simp
  have h3: "profiles sample_store bob = None" by (simp add: sample_store_def)
  show ?thesis
    using h1 h2 h3 profile_by_user_not_found[of "''abc''" sample_store]
      profile_by_user_not_found[of bob sample_store]
    by simp
qed

section \<open>Removal by an identifier that matches nothing\<close>

lemma splice_absent:
  "x \<notin> set (map f xs) \<Longrightarrow> splice_js (indexOf (map f xs) x) (Suc 0) xs = butlast xs"
  by (cases "xs = []") (auto simp: indexOf_absent splice_js_def Let_def butlast_conv_take
      nat_diff_distrib' max_def)

lemma more_sample_ids [simp]:
  "valid_oid exp1" "valid_oid edu1" "valid_oid other_id" "valid_oid cm1" "valid_oid cm2"
  "other_id \<noteq> exp1" "other_id \<noteq> edu1" "cm1 \<noteq> cm2" "cm2 \<noteq> cm1" "exp1 \<noteq> other_id" "edu1 \<noteq> other_id"
  "other_id \<noteq> post1" "post1 \<noteq> other_id"
  by (simp_all add: valid_oid_def is_hex_def exp1_def edu1_def other_id_def cm1_def cm2_def post1_def)

lemmas profile_handler_defs =
  Profile_findOne_def Profile_findOne_populate_def profile_save_def
  Profile_findOneAndUpdate_def server_error_def server_Error_def

text \<open>
  In general: an identifier that matches no entry removes the last entry of the list.
\<close>

lemma profile_findOne_ok:
  "valid_oid uid \<Longrightarrow> available (Suc n) s \<Longrightarrow>
   Profile_findOne uid s = (Inr (profiles s uid), spend 1 s)"
  by (simp add: Profile_findOne_def await_def db_call_ok)

lemma profile_save_ok:
  "available (Suc n) s \<Longrightarrow>
   profile_save uid p s = (Inr (), (spend 1 s)\<lparr>profiles := (profiles s)(uid \<mapsto> p)\<rparr>)"
  by (simp add: profile_save_def await_def db_call_ok)

lemma remove_experience_unmatched:
  assumes "valid_oid caller" and "profiles s caller = Some p" and "available 2 s"
    and "exp_id_param \<notin> set (map exp_id (prof_experience p))"
  shows "fst (remove_experience caller exp_id_param s)
           = Sent 200 (ProfileBody (p\<lparr>prof_experience := butlast (prof_experience p)\<rparr>))"
proof -
  from assms(3) have a1: "available (Suc 1) s" by (simp add: numeral_2_eq_2)
  have a2: "available (Suc 0) (spend 1 s)" using available_spend[OF a1] by simp
  show ?thesis
    using profile_findOne_ok[OF assms(1) a1] assms(2) profile_save_ok[OF a2, of caller]
      splice_absent[OF assms(4)]
    by (simp add: remove_experience_def remove_experience_try_def handle_def await_def
        deref_def respond_def Let_def)
qed

lemma remove_education_unmatched:
  assumes "valid_oid caller" and "profiles s caller = Some p" and "available 2 s"
    and "edu_id_param \<notin> set (map edu_id (prof_education p))"
  shows "fst (remove_education caller edu_id_param s)
           = Sent 200 (ProfileBody (p\<lparr>prof_education := butlast (prof_education p)\<rparr>))"
proof -
  from assms(3) have a1: "available (Suc 1) s" by (simp add: numeral_2_eq_2)
  have a2: "available (Suc 0) (spend 1 s)" using available_spend[OF a1] by simp
  show ?thesis
    using profile_findOne_ok[OF assms(1) a1] assms(2) profile_save_ok[OF a2, of caller]
      splice_absent[OF assms(4)]
    by (simp add: remove_education_def remove_education_try_def handle_def await_def
        deref_def respond_def Let_def)
qed

text \<open>
  C1. The claim is that removing an experience (education) identifier that matches no
  entry leaves the list unchanged. The handler passes the index \<open>-1\<close> of the failed
  search to \<^verbatim>\<open>splice\<close>, which removes the last entry: here the only experience entry
  and the only education entry of the profile are removed by an identifier that is not
  theirs, and the emptied profile is saved and returned with 200.
\<close>

theorem remove_unmatched_drops_last_entry:
  "other_id \<notin> set (map exp_id (prof_experience alice_profile))
   \<and> remove_experience alice other_id profile_store =
       (Sent 200 (ProfileBody (alice_profile\<lparr>prof_experience := []\<rparr>)),
        profile_store\<lparr>profiles := [alice \<mapsto> alice_profile\<lparr>prof_experience := []\<rparr>]\<rparr>)
   \<and> other_id \<notin> set (map edu_id (prof_education alice_profile))
   \<and> remove_education alice other_id profile_store =
       (Sent 200 (ProfileBody (alice_profile\<lparr>prof_education := []\<rparr>)),
        profile_store\<lparr>profiles := [alice \<mapsto> alice_profile\<lparr>prof_education := []\<rparr>]\<rparr>)"
proof -
  have f: "Profile_findOne alice profile_store = (Inr (Some alice_profile), profile_store)"
    by (simp add: profile_handler_defs handler_defs profile_store_def sample_store_def)
  have e: "prof_experience alice_profile = [job]" "prof_education alice_profile = [school]"
    by (simp_all add: alice_profile_def)
  have i: "exp_id job = exp1" "edu_id school = edu1" by (simp_all add: job_def school_def)
  have sv: "\<And>p. profile_save alice p profile_store
     = (Inr (), profile_store\<lparr>profiles := [alice \<mapsto> p]\<rparr>)"
    by (simp add: profile_handler_defs handler_defs profile_store_def sample_store_def)
  show ?thesis
    by (simp add: remove_experience_def remove_experience_try_def remove_education_def
        remove_education_try_def handle_def await_def deref_def respond_def f e i sv
        splice_js_def Let_def)
qed

section \<open>Deleting a comment\<close>

text \<open>
  The handler in full, for a post that exists: the 404 and 401 branches change no post;
  the author's delete removes the first comment of the caller, whatever identifier was
  requested.
\<close>

lemma delete_comment_branches:
  assumes "valid_oid pid" and "posts s pid = Some p" and "available 2 s"
  shows "delete_comment caller pid cid s =
    (case find (\<lambda>c. comment_id c = cid) (comments p) of
       None \<Rightarrow> (Sent 404 (Msg ''Comment does not exist''), spend 1 s)
     | Some c \<Rightarrow>
         if comment_user c \<noteq> caller
         then (Sent 401 (Msg ''User is not authorized''), spend 1 s)
         else (let cs = takeWhile (\<lambda>c. comment_user c \<noteq> caller) (comments p)
                      @ tl (dropWhile (\<lambda>c. comment_user c \<noteq> caller) (comments p))
               in (Sent 200 (CommentsBody cs),
                   (spend 2 s)\<lparr>posts := (posts s)(pid \<mapsto> p\<lparr>comments := cs\<rparr>)\<rparr>)))"
proof -
  from assms(3) have a1: "available (Suc 1) s" by (simp add: numeral_2_eq_2)
  have a2: "available (Suc 0) (spend 1 s)" using available_spend[OF a1] by simp
  have f: "Post_findById pid s = (Inr (Some p), spend 1 s)"
    using findById_ok[OF assms(1) a1] assms(2) by simp
  have m: "\<And>c. find (\<lambda>c. comment_id c = cid) (comments p) = Some c \<Longrightarrow>
      comment_user c = caller \<Longrightarrow> caller \<in> comment_user ` set (comments p)"
    by (auto simp: find_Some_iff)
  show ?thesis
    using f post_save_ok[OF a2, of pid]
    by (auto simp: delete_comment_def delete_comment_try_def handle_def await_def deref_def
        respond_def Let_def spend_spend numeral_2_eq_2 splice_present[OF m]
        split: option.splits)
qed

text \<open>
  C2. The claim is that the author's delete removes exactly the entry whose identifier is
  the path parameter. The handler finds that entry, but then removes the first comment
  of the caller: here the author of two comments deletes the second and loses the first,
  and the comment named in the request stays.
\<close>

theorem delete_comment_removes_other_entry:
  "find (\<lambda>c. comment_id c = cm2) [comment1, comment2] = Some comment2
   \<and> comment_user comment2 = bob
   \<and> delete_comment bob post1 cm2 commented_store =
       (Sent 200 (CommentsBody [comment2]),
        commented_store\<lparr>posts := [post1 \<mapsto> alice_post\<lparr>comments := [comment2]\<rparr>]\<rparr>)"
proof -
  have f: "Post_findById post1 commented_store
     = (Inr (Some (alice_post\<lparr>comments := [comment1, comment2]\<rparr>)), commented_store)"
    by (simp add: handler_defs commented_store_def sample_store_def)
  have c: "comment_id comment1 = cm1" "comment_id comment2 = cm2"
    "comment_user comment1 = bob" "comment_user comment2 = bob"
    by (simp_all add: comment1_def comment2_def)
  have sv: "\<And>p. post_save post1 p commented_store
     = (Inr (), commented_store\<lparr>posts := [post1 \<mapsto> p]\<rparr>)"
    by (simp add: handler_defs commented_store_def sample_store_def)
  show ?thesis
    by (simp add: delete_comment_def delete_comment_try_def handle_def await_def deref_def
        respond_def f c sv splice_js_def Let_def)
qed

section \<open>Validation responses\<close>

text \<open>
  The validation branch of each validated route: three routes send the error list, the
  experience and education routes an empty object.
\<close>

lemma create_post_validation:
  "isEmpty (to_string text) \<Longrightarrow>
   create_post caller text fresh s
     = (Sent 400 (ErrorsBody [\<lparr>err_msg = ''Text is required'', err_param = ''text''\<rparr>]), s)"
  by (simp add: create_post_def check_not_empty_def json_errors_def)

lemma add_comment_validation:
  "isEmpty (to_string text) \<Longrightarrow>
   add_comment caller pid text fresh s
     = (Sent 400 (ErrorsBody [\<lparr>err_msg = ''Text is required'', err_param = ''text''\<rparr>]), s)"
  by (simp add: add_comment_def check_not_empty_def json_errors_def)

lemma profile_upsert_validation:
  "\<not> valid_profile_body body \<Longrightarrow>
   profile_upsert nz caller body s =
     (Sent 400 (ErrorsBody
        (check_not_empty ''status'' ''Status is required'' (b_status body)
           @ check_skills ''skills'' ''Skills are required'' (b_skills body))), s)"
  by (simp add: profile_upsert_def valid_profile_body_def json_errors_def Let_def)

lemma add_experience_validation:
  "isEmpty (to_string (x_title body)) \<or> isEmpty (to_string (x_company body))
     \<or> isEmpty (to_string (x_from body)) \<Longrightarrow>
   add_experience caller body fresh s = (Sent 400 EmptyObject, s)"
  by (auto simp: add_experience_def check_not_empty_def json_errors_def)

lemma add_education_validation:
  "isEmpty (to_string (d_school body)) \<or> isEmpty (to_string (d_degree body))
     \<or> isEmpty (to_string (d_fieldofstudy body)) \<or> isEmpty (to_string (d_from body)) \<Longrightarrow>
   add_education caller body fresh s = (Sent 400 EmptyObject, s)"
  by (auto simp: add_education_def check_not_empty_def json_errors_def)

text \<open>
  C6. The claim is that a validated route answers missing required fields with 400 and
  the list of field errors. The experience and education handlers put the method
  \<^verbatim>\<open>errors.array\<close> itself under \<^verbatim>\<open>errors\<close>, which serialisation leaves out: here the
  validator does report the missing title, and both handlers answer 400 with an empty
  object, where the create-post handler sends the list.
\<close>

theorem experience_validation_sends_no_errors:
  "check_not_empty ''title'' ''Title is required'' (x_title no_experience_fields)
     = [\<lparr>err_msg = ''Title is required'', err_param = ''title''\<rparr>]
   \<and> add_experience alice no_experience_fields exp1 profile_store
       = (Sent 400 EmptyObject, profile_store)
   \<and> add_education alice no_education_fields edu1 profile_store
       = (Sent 400 EmptyObject, profile_store)
   \<and> create_post alice None post1 profile_store
       = (Sent 400 (ErrorsBody [\<lparr>err_msg = ''Text is required'', err_param = ''text''\<rparr>]),
          profile_store)"
  by (simp add: add_experience_def add_education_def create_post_def check_not_empty_def
      isEmpty_def to_string_def json_errors_def no_experience_fields_def
      no_education_fields_def)

section \<open>Exceptions in the like and unlike handlers\<close>

text \<open>
  A catch clause that binds \<^verbatim>\<open>error\<close> never reaches its block; one that binds
  \<^verbatim>\<open>err\<close> runs it.
\<close>

lemma catch_error_reads_err:
  "catch_block ''error'' block e = Rejected (ReferenceError ''err'')"
  by (simp add: catch_block_def read_err_def)

lemma catch_err_runs_block: "catch_block ''err'' block e = block e"
  by (simp add: catch_block_def read_err_def)

lemma like_post_exception:
  "like_try caller pid s = (Inl e, s') \<Longrightarrow>
   like_post caller pid s = (Rejected (ReferenceError ''err''), s')"
  by (simp add: like_post_def handle_def catch_error_reads_err)

lemma unlike_post_exception:
  "unlike_try caller pid s = (Inl e, s') \<Longrightarrow>
   unlike_post caller pid s = (Rejected (ReferenceError ''err''), s')"
  by (simp add: unlike_post_def handle_def catch_error_reads_err)

lemma delete_comment_exception:
  "delete_comment_try caller pid cid s = (Inl e, s') \<Longrightarrow>
   delete_comment caller pid cid s = (Sent 500 (Send ''Server error''), s')"
  by (simp add: delete_comment_def handle_def catch_err_runs_block server_error_def)

text \<open>
  C7. The claim is that an exception in any handler ends in a 500 response. The catch
  blocks of the like and unlike handlers bind \<^verbatim>\<open>error\<close> and read \<^verbatim>\<open>err\<close>: here a like
  and an unlike of a post that does not exist, and a like while the store is down, end in
  a \<^verbatim>\<open>ReferenceError\<close> that leaves the handler without a response, where the delete
  handler answers the same store failure with 500.
\<close>

theorem like_exception_leaves_handler:
  "posts sample_store other_id = None
   \<and> like_post bob other_id sample_store = (Rejected (ReferenceError ''err''), sample_store)
   \<and> unlike_post bob other_id sample_store = (Rejected (ReferenceError ''err''), sample_store)
   \<and> like_post bob post1 (sample_store\<lparr>budget := Some 0\<rparr>)
       = (Rejected (ReferenceError ''err''), sample_store\<lparr>budget := Some 0\<rparr>)
   \<and> delete_post bob post1 (sample_store\<lparr>budget := Some 0\<rparr>)
       = (Sent 500 (Send ''Server error''), sample_store\<lparr>budget := Some 0\<rparr>)"
  by (simp add: like_post_def like_try_def unlike_post_def unlike_try_def delete_post_def
      delete_post_try_def handler_defs post_not_found_or_500_def sample_store_def)

section \<open>Profile upsert\<close>

lemma split_js_nonempty: "split_js d str \<noteq> []"
  by (induction str) auto

lemma split_js_no_separator: "seg \<in> set (split_js d str) \<Longrightarrow> d \<notin> set seg"
proof (induction str arbitrary: seg)
  case Nil
  then show ?case by simp
next
  case (Cons c cs)
  show ?case
  proof (cases "c = d")
    case True
    with Cons show ?thesis by auto
  next
    case False
    obtain x xs where e: "split_js d cs = x # xs"
      using split_js_nonempty[of d cs] by (cases "split_js d cs") auto
    with Cons False show ?thesis by auto
  qed
qed

lemma join_split_js: "join_js d (split_js d str) = str"
proof (induction str)
  case Nil
  then show ?case by simp
next
  case (Cons c cs)
  obtain x xs where e: "split_js d cs = x # xs"
    using split_js_nonempty[of d cs] by (cases "split_js d cs") auto
  with Cons show ?case by (cases xs) auto
qed

lemma strip_front_suffix: "\<exists>a. str = a @ strip_front ws str"
proof (induction ws str rule: strip_front.induct)
  case (1 ws str)
  show ?case
  proof (cases "find (\<lambda>w. w \<noteq> [] \<and> take (length w) str = w) ws")
    case None
    then show ?thesis by (simp add: strip_front.simps[of ws str])
  next
    case (Some w)
    from "1.IH"[OF Some] obtain a
      where a: "drop (length w) str = a @ strip_front ws (drop (length w) str)" by blast
    have "str = take (length w) str @ drop (length w) str" by simp
    with a have "str = (take (length w) str @ a) @ strip_front ws (drop (length w) str)"
      by (metis append.assoc)
    then have "\<exists>a'. str = a' @ strip_front ws (drop (length w) str)" by (rule exI)
    with Some show ?thesis by (simp add: strip_front.simps[of ws str])
  qed
qed

lemma strip_front_done:
  "find (\<lambda>w. w \<noteq> [] \<and> take (length w) (strip_front ws str) = w) ws = None"
proof (induction ws str rule: strip_front.induct)
  case (1 ws str)
  show ?case
  proof (cases "find (\<lambda>w. w \<noteq> [] \<and> take (length w) str = w) ws")
    case None
    then show ?thesis by (simp add: strip_front.simps[of ws str])
  next
    case (Some w)
    from "1.IH"[OF Some] Some show ?thesis by (simp add: strip_front.simps[of ws str])
  qed
qed

lemma white_space_nonempty: "w \<in> set white_space \<Longrightarrow> w \<noteq> []"
  by (auto simp: white_space_def)

lemma trimStart_suffix: "\<exists>a. str = a @ trimStart str"
  unfolding trimStart_def by (rule strip_front_suffix)

lemma trimEnd_prefix: "\<exists>b. str = trimEnd str @ b"
proof -
  obtain a where "rev str = a @ strip_front (map rev white_space) (rev str)"
    using strip_front_suffix by blast
  then have "str = rev (strip_front (map rev white_space) (rev str)) @ rev a"
    by (metis rev_append rev_rev_ident)
  then show ?thesis unfolding trimEnd_def by blast
qed

lemma trim_middle: "\<exists>a b. str = a @ trim str @ b"
proof -
  obtain a where a: "str = a @ trimStart str" using trimStart_suffix by blast
  obtain b where b: "trimStart str = trimEnd (trimStart str) @ b"
    using trimEnd_prefix by blast
  from a b have "str = a @ trim str @ b" by (simp add: trim_def)
  then show ?thesis by blast
qed

lemma trimStart_no_leading:
  assumes "w \<in> set white_space" shows "take (length w) (trimStart str) \<noteq> w"
proof
  assume "take (length w) (trimStart str) = w"
  with assms white_space_nonempty[OF assms]
  have "\<exists>x\<in>set white_space. x \<noteq> [] \<and> take (length x) (trimStart str) = x" by blast
  then have "find (\<lambda>w. w \<noteq> [] \<and> take (length w) (trimStart str) = w) white_space \<noteq> None"
    by (auto simp: find_None_iff)
  then show False by (simp add: trimStart_def strip_front_done)
qed

lemma trimEnd_no_trailing:
  assumes "w \<in> set white_space"
  shows "drop (length (trimEnd str) - length w) (trimEnd str) \<noteq> w"
proof
  let ?r = "strip_front (map rev white_space) (rev str)"
  assume e: "drop (length (trimEnd str) - length w) (trimEnd str) = w"
  have t: "trimEnd str = rev ?r" by (simp add: trimEnd_def)
  have "take (length w) (rev (trimEnd str))
          = rev (drop (length (trimEnd str) - length w) (trimEnd str))"
    by (rule take_rev)
  with e t have "take (length (rev w)) ?r = rev w" by simp
  with assms white_space_nonempty[OF assms]
  have "\<exists>x\<in>set (map rev white_space). x \<noteq> [] \<and> take (length x) ?r = x"
    by (intro bexI[of _ "rev w"]) auto
  then have "find (\<lambda>w. w \<noteq> [] \<and> take (length w) ?r = w) (map rev white_space) \<noteq> None"
    by (auto simp: find_None_iff)
  then show False by (simp add: strip_front_done)
qed

lemma trim_no_trailing:
  "w \<in> set white_space \<Longrightarrow> drop (length (trim str) - length w) (trim str) \<noteq> w"
  unfolding trim_def by (rule trimEnd_no_trailing)

lemma trim_no_leading:
  assumes "w \<in> set white_space" shows "take (length w) (trim str) \<noteq> w"
proof
  assume e: "take (length w) (trim str) = w"
  obtain b where b: "trimStart str = trim str @ b"
    using trimEnd_prefix[of "trimStart str"] by (auto simp: trim_def)
  have "length (take (length w) (trim str)) = length w" using e by simp
  then have "length w \<le> length (trim str)" by simp
  with e b have "take (length w) (trimStart str) = w" by simp
  with trimStart_no_leading[OF assms] show False by blast
qed

lemma website_field_ok:
  "normalizes nz v \<Longrightarrow> \<exists>w. website_field nz v = Inr w \<and> Some w = stored_website nz v"
  by (auto simp: normalizes_def website_field_def stored_website_def split: option.splits)

lemma social_field_ok:
  "normalizes nz v \<Longrightarrow> social_field nz v = Inr (stored_link nz v)"
  by (auto simp: normalizes_def social_field_def stored_link_def split: option.splits)

lemma skills_field_ok:
  "skills_field (Some sk) =
     Inr (case sk of
            SkillsArray xs \<Rightarrow> xs
          | SkillsString str \<Rightarrow> map (\<lambda>seg. CHR '' '' # trim seg) (split_js (CHR '','') str))"
  by (simp add: skills_field_def split: skills_in.splits)

lemma findOneAndUpdate_ok:
  assumes "valid_oid uid" and "available (Suc n) s"
  shows "\<exists>doc. Profile_findOneAndUpdate uid pf s
            = (Inr doc, (spend 1 s)\<lparr>profiles := (profiles s)(uid \<mapsto> doc)\<rparr>)
          \<and> prof_skills doc = prof_skills pf \<and> prof_website doc = prof_website pf
          \<and> prof_social doc = prof_social pf"
  using assms db_call_ok[OF assms(2)]
  by (simp add: Profile_findOneAndUpdate_def await_def Let_def split: option.splits)

lemma upsert_rejects_when_normalizer_throws:
  assumes "valid_profile_body body" and "b_website body = Some w" and "w \<noteq> []"
    and "nz w True = None"
  shows "profile_upsert nz caller body s = (Rejected UrlError, s)"
  using assms
  by (simp add: profile_upsert_def valid_profile_body_def build_profileFields_def
      and_then_def website_field_def)

text \<open>
  When the normaliser returns on every non-empty link, a valid upsert stores: the skills
  string split on commas, each segment trimmed and given one leading space, or the skills
  array as it is; for the website the normaliser's result, or the empty string when
  the field is empty or absent; for each social link the normaliser's result, or the
  field as it arrived when it is empty or absent.
\<close>

lemma profile_upsert_stores:
  assumes "valid_profile_body body" and "b_skills body = Some sk"
    and "valid_oid caller" and "available 1 s"
    and "normalizes nz (b_website body)"
    and "normalizes nz (b_youtube body)" and "normalizes nz (b_twitter body)"
    and "normalizes nz (b_instagram body)" and "normalizes nz (b_linkedin body)"
    and "normalizes nz (b_facebook body)"
  shows "\<exists>doc s'. profile_upsert nz caller body s = (Sent 200 (ProfileBody doc), s')
     \<and> profiles s' caller = Some doc
     \<and> prof_skills doc =
         (case sk of
            SkillsArray xs \<Rightarrow> xs
          | SkillsString str \<Rightarrow> map (\<lambda>seg. CHR '' '' # trim seg) (split_js (CHR '','') str))
     \<and> Some (prof_website doc) = stored_website nz (b_website body)
     \<and> youtube (prof_social doc) = stored_link nz (b_youtube body)
     \<and> twitter (prof_social doc) = stored_link nz (b_twitter body)
     \<and> instagram (prof_social doc) = stored_link nz (b_instagram body)
     \<and> linkedin (prof_social doc) = stored_link nz (b_linkedin body)
     \<and> facebook (prof_social doc) = stored_link nz (b_facebook body)"
proof -
  from website_field_ok[OF assms(5)] obtain w
    where w: "website_field nz (b_website body) = Inr w"
      and ws: "Some w = stored_website nz (b_website body)" by blast
  let ?skills = "case sk of
            SkillsArray xs \<Rightarrow> xs
          | SkillsString str \<Rightarrow> map (\<lambda>seg. CHR '' '' # trim seg) (split_js (CHR '','') str)"
  let ?pf = "\<lparr>prof_user = caller, prof_company = b_company body,
      prof_location = b_location body, prof_website = w, prof_bio = b_bio body,
      prof_skills = ?skills, prof_status = b_status body,
      prof_githubusername = b_githubusername body,
      prof_social = \<lparr>youtube = stored_link nz (b_youtube body),
                      twitter = stored_link nz (b_twitter body),
                      instagram = stored_link nz (b_instagram body),
                      linkedin = stored_link nz (b_linkedin body),
                      facebook = stored_link nz (b_facebook body)\<rparr>,
      prof_experience = [], prof_education = []\<rparr>"
  have b: "build_profileFields nz caller body = Inr ?pf"
    by (simp add: build_profileFields_def and_then_def w assms(2) skills_field_ok
        social_field_ok[OF assms(6)] social_field_ok[OF assms(7)]
        social_field_ok[OF assms(8)] social_field_ok[OF assms(9)]
        social_field_ok[OF assms(10)])
  from assms(4) have a: "available (Suc 0) s" by simp
  from findOneAndUpdate_ok[OF assms(3) a, of ?pf] obtain doc
    where u: "Profile_findOneAndUpdate caller ?pf s
            = (Inr doc, (spend 1 s)\<lparr>profiles := (profiles s)(caller \<mapsto> doc)\<rparr>)"
      and d: "prof_skills doc = ?skills" "prof_website doc = w"
        "prof_social doc = prof_social ?pf"
    by auto
  have r: "profile_upsert nz caller body s
      = (Sent 200 (ProfileBody doc), (spend 1 s)\<lparr>profiles := (profiles s)(caller \<mapsto> doc)\<rparr>)"
    using assms(1)
    by (simp add: profile_upsert_def valid_profile_body_def b handle_def await_def u
        respond_def)
  show ?thesis using r d ws by simp
qed

lemma sample_normalize_values:
  "sample_normalize ''example.com'' True = Some ''https://example.com''"
  "sample_normalize ''twitter.com/a '' True = Some ''https://twitter.com/a''"
  "sample_normalize '' '' True = None"
  by (simp_all add: sample_normalize_def) code_simp+

lemma sample_bodies_valid:
  "valid_profile_body sample_body" "valid_profile_body minimal_body"
  "valid_profile_body blank_site_body"
  by (simp_all add: valid_profile_body_def sample_body_def minimal_body_def
      blank_site_body_def check_not_empty_def check_skills_def isEmpty_def to_string_def)

lemma trim_samples: "trim ''js'' = ''js''" "trim '' node'' = ''node''"
  by code_simp+

text \<open>
  The request of the specification's end-to-end example, and one with links.
\<close>

lemma profile_upsert_examples:
  "valid_profile_body sample_body \<and> valid_oid alice \<and> available 1 sample_store
   \<and> normalizes sample_normalize (b_website sample_body)
   \<and> normalizes sample_normalize (b_twitter sample_body)
   \<and> (\<exists>doc s'. profile_upsert sample_normalize alice sample_body sample_store
                  = (Sent 200 (ProfileBody doc), s')
         \<and> profiles s' alice = Some doc
         \<and> prof_skills doc = ['' js'', '' node'']
         \<and> prof_website doc = ''https://example.com''
         \<and> youtube (prof_social doc) = Some []
         \<and> twitter (prof_social doc) = Some ''https://twitter.com/a''
         \<and> instagram (prof_social doc) = None)
   \<and> (\<exists>doc s'. profile_upsert sample_normalize alice minimal_body sample_store
                  = (Sent 200 (ProfileBody doc), s')
         \<and> prof_skills doc = ['' js'', '' node''] \<and> prof_website doc = [])"
proof -
  have v: "valid_profile_body sample_body" "valid_profile_body minimal_body"
    by (rule sample_bodies_valid)+
  have sk: "b_skills sample_body = Some (SkillsString ''js, node'')"
    "b_skills minimal_body = Some (SkillsString ''js, node'')"
    by (simp_all add: sample_body_def minimal_body_def)
  have o: "valid_oid alice" by simp
  have a: "available 1 sample_store" by simp
  have n: "normalizes sample_normalize (b_website sample_body)"
    "normalizes sample_normalize (b_youtube sample_body)"
    "normalizes sample_normalize (b_twitter sample_body)"
    "normalizes sample_normalize (b_instagram sample_body)"
    "normalizes sample_normalize (b_linkedin sample_body)"
    "normalizes sample_normalize (b_facebook sample_body)"
    by (simp_all add: normalizes_def sample_body_def sample_normalize_values)
  have m: "normalizes sample_normalize (b_website minimal_body)"
    "normalizes sample_normalize (b_youtube minimal_body)"
    "normalizes sample_normalize (b_twitter minimal_body)"
    "normalizes sample_normalize (b_instagram minimal_body)"
    "normalizes sample_normalize (b_linkedin minimal_body)"
    "normalizes sample_normalize (b_facebook minimal_body)"
    by (simp_all add: normalizes_def minimal_body_def)
  note t = trim_samples
  have st: "stored_website sample_normalize (b_website sample_body) = Some ''https://example.com''"
    "stored_link sample_normalize (b_youtube sample_body) = Some []"
    "stored_link sample_normalize (b_twitter sample_body) = Some ''https://twitter.com/a''"
    "stored_link sample_normalize (b_instagram sample_body) = None"
    "stored_website sample_normalize (b_website minimal_body) = Some []"
    by (simp_all add: stored_website_def stored_link_def sample_body_def minimal_body_def
        sample_normalize_values)
  have 1: "\<exists>doc s'. profile_upsert sample_normalize alice sample_body sample_store
                  = (Sent 200 (ProfileBody doc), s')
         \<and> profiles s' alice = Some doc
         \<and> prof_skills doc = ['' js'', '' node'']
         \<and> prof_website doc = ''https://example.com''
         \<and> youtube (prof_social doc) = Some []
         \<and> twitter (prof_social doc) = Some ''https://twitter.com/a''
         \<and> instagram (prof_social doc) = None"
    using profile_upsert_stores[OF v(1) sk(1) o a n] by (simp add: t st) metis
  have 2: "\<exists>doc s'. profile_upsert sample_normalize alice minimal_body sample_store
                  = (Sent 200 (ProfileBody doc), s')
         \<and> prof_skills doc = ['' js'', '' node''] \<and> prof_website doc = []"
    using profile_upsert_stores[OF v(2) sk(2) o a m] by (simp add: t st) metis
  show ?thesis using v(1) o a n(1) n(3) 1 2 by blast
qed

text \<open>
  C9. The claim is that a valid upsert stores the empty string for a link when its
  normalisation fails. The handler normalises the links while it builds
  \<^verbatim>\<open>profileFields\<close>, before its \<^verbatim>\<open>try\<close> block: here a valid request whose website is
  one blank makes the normaliser throw, the exception leaves the handler, no response
  is sent and no profile is stored; the same handler answers a failure inside the
  \<^verbatim>\<open>try\<close> block (the store is down) with 500.
\<close>

theorem upsert_normalizer_throw_leaves_handler:
  "valid_profile_body blank_site_body
   \<and> b_website blank_site_body = Some '' ''
   \<and> sample_normalize '' '' True = None
   \<and> profile_upsert sample_normalize alice blank_site_body sample_store
       = (Rejected UrlError, sample_store)
   \<and> profiles sample_store alice = None
   \<and> profile_upsert sample_normalize alice minimal_body (sample_store\<lparr>budget := Some 0\<rparr>)
       = (Sent 500 (Send ''Server Error''), sample_store\<lparr>budget := Some 0\<rparr>)"
proof -
  have v: "valid_profile_body blank_site_body" "valid_profile_body minimal_body"
    by (rule sample_bodies_valid)+
  have w: "b_website blank_site_body = Some '' ''" by (simp add: blank_site_body_def)
  have n: "sample_normalize '' '' True = None" by (rule sample_normalize_values)
  have p: "profiles sample_store alice = None" by (simp add: sample_store_def)
  have r: "profile_upsert sample_normalize alice blank_site_body sample_store
       = (Rejected UrlError, sample_store)"
    using v(1) w n
    by (simp add: profile_upsert_def valid_profile_body_def build_profileFields_def
        and_then_def website_field_def)
  have b: "\<exists>pf. build_profileFields sample_normalize alice minimal_body = Inr pf"
    by (simp add: build_profileFields_def and_then_def website_field_def skills_field_def
        social_field_def minimal_body_def)
  then obtain pf where pf: "build_profileFields sample_normalize alice minimal_body = Inr pf"
    by blast
  have d: "profile_upsert sample_normalize alice minimal_body (sample_store\<lparr>budget := Some 0\<rparr>)
       = (Sent 500 (Send ''Server Error''), sample_store\<lparr>budget := Some 0\<rparr>)"
    using v(2)
    by (simp add: profile_upsert_def valid_profile_body_def pf handle_def await_def
        Profile_findOneAndUpdate_def db_call_def catch_block_def read_err_def
        server_Error_def)
  show ?thesis using v(1) w n r p d by simp
qed

end
